theory Spec2Isabelle
  imports Main
begin

section \<open>JavaScript values\<close>

text \<open>
  The program (\<^verbatim>\<open>src/main.ts\<close>) works on values parsed from JSON files and on the objects
  the Lambda client hands to its callbacks. Its validators look only at property names, so
  at run time a field can hold any JSON value: the model keeps values untyped.

  \<^item> \<open>JNum\<close> holds an integer. The program only tests numbers for truthiness and for
    \<^verbatim>\<open>===\<close>; a fraction behaves there like a nonzero integer.
  \<^item> \<open>JObj\<close> holds the own properties of an object as an association list; the first
    binding of a key is the property's value.
\<close>

datatype jv =
    JUndefined
  | JNull
  | JBool bool
  | JNum int
  | JStr string
  | JArr "jv list"
  | JObj "(string \<times> jv) list"

text \<open>The decimal spelling of an array index, as JavaScript names an array's properties.\<close>

fun index_key :: "nat \<Rightarrow> string" where
  "index_key i =
     (let units = [char_of (i mod 10 + 48)]
      in if i < 10 then units else index_key (i div 10) @ units)"

declare index_key.simps [simp del]

definition indexed :: "jv list \<Rightarrow> (string \<times> jv) list" where
  "indexed xs = zip (map index_key [0..<length xs]) xs"

text \<open>\<^verbatim>\<open>typeof v === 'object'\<close>: true of objects, arrays and \<^verbatim>\<open>null\<close>.\<close>

fun typeof_object :: "jv \<Rightarrow> bool" where
  "typeof_object JNull = True"
| "typeof_object (JArr xs) = True"
| "typeof_object (JObj kvs) = True"
| "typeof_object v = False"

fun isArray :: "jv \<Rightarrow> bool" where
  "isArray (JArr xs) = True"
| "isArray v = False"

text \<open>The truth value of \<^verbatim>\<open>if (v)\<close>, \<^verbatim>\<open>v && ...\<close> and \<^verbatim>\<open>!v\<close>.\<close>

fun truthy :: "jv \<Rightarrow> bool" where
  "truthy JUndefined = False"
| "truthy JNull = False"
| "truthy (JBool b) = b"
| "truthy (JNum n) = (n \<noteq> 0)"
| "truthy (JStr s) = (s \<noteq> [])"
| "truthy (JArr xs) = True"
| "truthy (JObj kvs) = True"

text \<open>
  \<^verbatim>\<open>Object.keys(v)\<close>. Only the number of keys and the values under them are used, so
  the order of the list is immaterial. The source calls it behind \<open>isObject\<close> only; on a
  number or a boolean it is empty.
\<close>

fun Object_keys :: "jv \<Rightarrow> string list" where
  "Object_keys (JObj kvs) = remdups (map fst kvs)"
| "Object_keys (JArr xs) = map fst (indexed xs)"
| "Object_keys (JStr s) = map index_key [0..<length s]"
| "Object_keys v = []"

text \<open>
  A property read \<^verbatim>\<open>v.k\<close> or \<^verbatim>\<open>v[k]\<close>; a missing property reads as \<^verbatim>\<open>undefined\<close>.
  Reading a property of \<^verbatim>\<open>null\<close> or \<^verbatim>\<open>undefined\<close> throws in JavaScript: the
  functions below write that branch out wherever the source can reach it, and never apply
  \<open>get\<close> there.
\<close>

fun get :: "jv \<Rightarrow> string \<Rightarrow> jv" where
  "get (JObj kvs) k = (case map_of kvs k of Some x \<Rightarrow> x | None \<Rightarrow> JUndefined)"
| "get (JArr xs) k =
     (if k = ''length'' then JNum (int (length xs))
      else case map_of (indexed xs) k of Some x \<Rightarrow> x | None \<Rightarrow> JUndefined)"
| "get (JStr s) k =
     (if k = ''length'' then JNum (int (length s))
      else case map_of (indexed (map (\<lambda>c. JStr [c]) s)) k of
             Some x \<Rightarrow> x | None \<Rightarrow> JUndefined)"
| "get v k = JUndefined"

text \<open>The error object of a \<^verbatim>\<open>TypeError\<close> thrown by the runtime.\<close>

definition TypeError :: jv where
  "TypeError = JObj [(''name'', JStr ''TypeError'')]"

text \<open>
  The method call \<^verbatim>\<open>obj.hasOwnProperty(k)\<close>; \<open>None\<close> when the call throws a
  \<^verbatim>\<open>TypeError\<close>. The method is looked up on \<^verbatim>\<open>obj\<close> itself. An object that has a
  property of its own named \<^verbatim>\<open>hasOwnProperty\<close> shadows the inherited method; in a parsed
  JSON document the value of that property is never a function, so the call throws. Every
  other object, every array and every string, number and boolean reaches the inherited
  method, which tests for an own property. \<^verbatim>\<open>null\<close> and \<^verbatim>\<open>undefined\<close> have no properties
  to look the method up in.
\<close>

fun hasOwnProperty :: "jv \<Rightarrow> string \<Rightarrow> bool option" where
  "hasOwnProperty (JObj kvs) k =
     (if ''hasOwnProperty'' \<in> set (map fst kvs) then None
      else Some (k \<in> set (map fst kvs)))"
| "hasOwnProperty (JArr xs) k = Some (k = ''length'' \<or> k \<in> set (map fst (indexed xs)))"
| "hasOwnProperty (JStr s) k =
     Some (k = ''length'' \<or> k \<in> set (map index_key [0..<length s]))"
| "hasOwnProperty JUndefined k = None"
| "hasOwnProperty JNull k = None"
| "hasOwnProperty v k = Some False"

text \<open>
  A chain \<^verbatim>\<open>a && b && ...\<close> of boolean tests, evaluated from the left: it stops with
  false at the first false test, and with the exception at the first test that throws.
\<close>

fun and_then :: "bool option \<Rightarrow> bool option \<Rightarrow> bool option" where
  "and_then None rest = None"
| "and_then (Some False) rest = Some False"
| "and_then (Some True) rest = rest"

definition all_of :: "bool option list \<Rightarrow> bool option" where
  "all_of tests = foldr and_then tests (Some True)"

text \<open>
  \<^verbatim>\<open>a === b\<close> for two values that were built apart (one parsed from a local file, the
  other received from the remote service, or two separate replies): primitives are compared
  by value, and two objects or arrays are never the same object.
\<close>

fun strict_eq :: "jv \<Rightarrow> jv \<Rightarrow> bool" where
  "strict_eq JUndefined JUndefined = True"
| "strict_eq JNull JNull = True"
| "strict_eq (JBool a) (JBool b) = (a = b)"
| "strict_eq (JNum a) (JNum b) = (a = b)"
| "strict_eq (JStr a) (JStr b) = (a = b)"
| "strict_eq a b = False"

section \<open>The helpers of the source\<close>

definition isObject :: "jv \<Rightarrow> bool" where
  "isObject obj = (typeof_object obj \<and> obj \<noteq> JNull)"

definition isEmpty :: "jv \<Rightarrow> bool" where
  "isEmpty obj =
     (obj = JUndefined \<or>
      obj = JNull \<or>
      (isObject obj \<and> length (Object_keys obj) = 0) \<or>
      (isArray obj \<and> get obj ''length'' = JNum 0))"

definition isNEString :: "jv \<Rightarrow> bool" where
  "isNEString v = (case v of JStr s \<Rightarrow> length s > 0 | _ \<Rightarrow> False)"

text \<open>
  The three shape predicates; \<open>None\<close> when a call of \<^verbatim>\<open>hasOwnProperty\<close> throws.
\<close>

definition isLambdaConfig :: "jv \<Rightarrow> bool option" where
  "isLambdaConfig obj =
     all_of
       [Some (typeof_object obj),
        Some (obj \<noteq> JNull),
        hasOwnProperty obj ''archiveName'',
        hasOwnProperty obj ''FunctionName'',
        hasOwnProperty obj ''Description'',
        hasOwnProperty obj ''Handler'',
        hasOwnProperty obj ''Publish'',
        hasOwnProperty obj ''Runtime'',
        hasOwnProperty obj ''MemorySize'',
        hasOwnProperty obj ''Timeout'']"

definition isLambdaSecrets :: "jv \<Rightarrow> bool option" where
  "isLambdaSecrets obj =
     all_of
       [Some (typeof_object obj),
        Some (obj \<noteq> JNull),
        hasOwnProperty obj ''region'',
        hasOwnProperty obj ''profile'',
        hasOwnProperty obj ''accessKeyId'',
        hasOwnProperty obj ''secretAccessKey'',
        hasOwnProperty obj ''Role'',
        hasOwnProperty obj ''Environment'']"

definition isLambdaTest :: "jv \<Rightarrow> bool option" where
  "isLambdaTest obj =
     all_of
       [Some (typeof_object obj),
        Some (obj \<noteq> JNull),
        hasOwnProperty obj ''context'',
        hasOwnProperty obj ''events'']"

text \<open>
  The loop of \<open>isLambdaTests\<close> and of \<open>checkObject\<close> over the elements of an array: false
  at the first element that is no test case, the exception of the first element that makes
  \<open>isLambdaTest\<close> throw.
\<close>

fun all_isLambdaTest :: "jv list \<Rightarrow> bool option" where
  "all_isLambdaTest [] = Some True"
| "all_isLambdaTest (x # xs) =
     (case isLambdaTest x of
        None \<Rightarrow> None
      | Some ok \<Rightarrow> if \<not> ok then Some False else all_isLambdaTest xs)"

definition isLambdaTests :: "jv \<Rightarrow> bool option" where
  "isLambdaTests obj = (case obj of JArr xs \<Rightarrow> all_isLambdaTest xs | _ \<Rightarrow> Some False)"

definition FILE_LAMBDA_CONFIG :: string where
  "FILE_LAMBDA_CONFIG = ''lambda-config.json''"

definition FILE_LAMBDA_SECRETS :: string where
  "FILE_LAMBDA_SECRETS = ''lambda-secrets.json''"

definition FILE_LAMBDA_TESTS :: string where
  "FILE_LAMBDA_TESTS = ''lambda-tests.json''"

definition INFO_FUNCTION_CODE_UO_TO_DATE :: string where
  "INFO_FUNCTION_CODE_UO_TO_DATE = ''Function code up-to-date''"

definition INFO_DEPLOY_COMPLETE :: string where
  "INFO_DEPLOY_COMPLETE = ''Lambda function deploy finished''"

definition ERR_LAMBDA_NOT_FOUND :: string where
  "ERR_LAMBDA_NOT_FOUND = ''Lambda not found''"

definition ERR_LAMBDA_CONFIG :: string where
  "ERR_LAMBDA_CONFIG = ''Lambda config different''"

text \<open>
  \<open>checkObject\<close>: the empty string when the document has the shape of \<open>checkType\<close>, a
  message otherwise; \<open>None\<close> when the shape predicate throws. The \<^verbatim>\<open>switch\<close> compares
  \<open>checkType\<close> with the three file names in the order of the source.
\<close>

definition checkObject :: "jv \<Rightarrow> string \<Rightarrow> string option" where
  "checkObject object checkType =
     (if checkType = FILE_LAMBDA_CONFIG then
        (case isLambdaConfig object of
           None \<Rightarrow> None
         | Some ok \<Rightarrow> Some (if ok then '''' else ''Invalid lambda config''))
      else if checkType = FILE_LAMBDA_SECRETS then
        (case isLambdaSecrets object of
           None \<Rightarrow> None
         | Some ok \<Rightarrow> Some (if ok then '''' else ''Invalid lambda secrets''))
      else if checkType = FILE_LAMBDA_TESTS then
        (case object of
           JArr xs \<Rightarrow>
             (case all_isLambdaTest xs of
                None \<Rightarrow> None
              | Some ok \<Rightarrow> Some (if ok then '''' else ''Invalid lambda tests''))
         | _ \<Rightarrow> Some ''Invalid lambda tests'')
      else Some (''Invalid check type '' @ checkType))"

section \<open>The configuration equality check\<close>

text \<open>The loop of \<open>compareEnvironment\<close> over the keys \<open>k1\<close> of the first side.\<close>

fun same_values :: "jv \<Rightarrow> jv \<Rightarrow> string list \<Rightarrow> bool" where
  "same_values v1 v2 [] = True"
| "same_values v1 v2 (k # ks) =
     (if \<not> strict_eq (get v1 k) (get v2 k) then False else same_values v1 v2 ks)"

definition compareEnvironment :: "jv \<Rightarrow> jv \<Rightarrow> bool" where
  "compareEnvironment env1 env2 =
     (if (isEmpty env1 \<or> isObject env1 \<and> truthy env1 \<and>
            isEmpty (get env1 ''Variables'')) \<and>
         (isEmpty env2 \<or> isObject env2 \<and> truthy env2 \<and>
            isEmpty (get env2 ''Variables''))
      then True
      else if isObject env2 \<and> truthy env2 \<and>
         isObject (get env2 ''Variables'') \<and>
         length (Object_keys (get env2 ''Variables'')) > 0 \<and>
         (isEmpty env1 \<or> isObject env1 \<and> truthy env1 \<and>
            isEmpty (get env1 ''Variables''))
      then False
      else if isObject env1 \<and> truthy env1 \<and>
         isObject (get env1 ''Variables'') \<and>
         length (Object_keys (get env1 ''Variables'')) > 0 \<and>
         (isEmpty env2 \<or> isObject env2 \<and> truthy env2 \<and>
            isEmpty (get env2 ''Variables''))
      then False
      else if isObject env1 \<and> truthy env1 \<and> isObject (get env1 ''Variables'') \<and>
         truthy (get env1 ''Variables'') \<and>
         isObject env2 \<and> truthy env2 \<and> isObject (get env2 ''Variables'') \<and>
         truthy (get env2 ''Variables'')
      then
        (let k1 = Object_keys (get env1 ''Variables'');
             k2 = Object_keys (get env2 ''Variables'');
             l1 = length k1;
             l2 = length k2
         in if l1 = l2 then same_values (get env1 ''Variables'') (get env2 ''Variables'') k1
            else False)
      else False)"

text \<open>
  \<open>checkLambdaConfig\<close> reads the object's fields \<open>lambdaCfg\<close> and \<open>lambdaSecrets\<close>; the
  record \<open>gdw\<close> holds the four mutable fields of a \<^verbatim>\<open>GdwAwsLambda\<close> object (the Lambda
  client, the fifth, is the remote service of the next section).
\<close>

record gdw =
  lambdaCfg :: jv
  lambdaSecrets :: jv
  lambdaTests :: jv
  lambdaGetInfo :: jv

definition checkLambdaConfig :: "gdw \<Rightarrow> jv \<Rightarrow> bool" where
  "checkLambdaConfig st config =
     (if truthy config \<and>
         strict_eq (get config ''FunctionName'') (get (lambdaCfg st) ''FunctionName'') \<and>
         strict_eq (get config ''Description'') (get (lambdaCfg st) ''Description'') \<and>
         strict_eq (get config ''Handler'') (get (lambdaCfg st) ''Handler'') \<and>
         strict_eq (get config ''Runtime'') (get (lambdaCfg st) ''Runtime'') \<and>
         strict_eq (get config ''MemorySize'') (get (lambdaCfg st) ''MemorySize'') \<and>
         strict_eq (get config ''Timeout'') (get (lambdaCfg st) ''Timeout'') \<and>
         strict_eq (get config ''Role'') (get (lambdaSecrets st) ''Role'')
      then compareEnvironment (get config ''Environment'')
             (get (lambdaSecrets st) ''Environment'')
      else False)"

section \<open>Promises, the file system and the remote service\<close>

text \<open>
  A promise is modelled by how it ends: resolved with a value, rejected with a payload, or
  never settled. A payload is a string (\<open>JStr\<close>) or an error object, given by its
  properties.
\<close>

datatype 'a promise = Resolved 'a | Rejected jv | Pending

definition then_promise :: "'a promise \<Rightarrow> ('a \<Rightarrow> 'b promise) \<Rightarrow> 'b promise" where
  "then_promise p f =
     (case p of Resolved v \<Rightarrow> f v | Rejected e \<Rightarrow> Rejected e | Pending \<Rightarrow> Pending)"

fun rejections :: "'a promise list \<Rightarrow> jv list" where
  "rejections [] = []"
| "rejections (Rejected e # ps) = e # rejections ps"
| "rejections (p # ps) = rejections ps"

fun resolutions :: "'a promise list \<Rightarrow> 'a list option" where
  "resolutions [] = Some []"
| "resolutions (Resolved v # ps) =
     (case resolutions ps of Some vs \<Rightarrow> Some (v # vs) | None \<Rightarrow> None)"
| "resolutions (p # ps) = None"

text \<open>
  \<^verbatim>\<open>Promise.all\<close>: rejected as soon as one member is, with that member's payload; resolved
  when all are. Which of several rejections comes first is decided by the timing of the
  I/O behind them: the parameter \<open>first\<close> picks one of the rejected payloads.
\<close>

definition promise_all :: "(jv list \<Rightarrow> nat) \<Rightarrow> jv promise list \<Rightarrow> jv promise" where
  "promise_all first ps =
     (let rs = rejections ps in
      if rs \<noteq> [] then Rejected (rs ! (first rs mod length rs))
      else case resolutions ps of Some vs \<Rightarrow> Resolved (JArr vs) | None \<Rightarrow> Pending)"

text \<open>
  The arguments of a remote call: object literals whose fields hold program values, the
  bytes of a file (\<open>Buffer\<close>) or a nested literal.
\<close>

datatype arg = Val jv | Buffer string | Struct "(string \<times> arg) list"

type_synonym params = "(string \<times> arg) list"

datatype call =
    GetFunction params
  | CreateFunction params
  | UpdateFunctionConfiguration params
  | UpdateFunctionCode params

text \<open>What the client passes to a callback: an error object, or the response object.\<close>

datatype reply = Err "(string \<times> jv) list" | Data "(string \<times> jv) list"

text \<open>How a piece of synchronous code ends: it returns, it throws, or it never ends.\<close>

datatype 'a completion = Normal 'a | Throws jv | Diverges

text \<open>What \<^verbatim>\<open>require(filePath)[eventHandler]\<close> evaluates to.\<close>

datatype export = Falsy | NotCallable | Fn "jv \<Rightarrow> jv \<Rightarrow> jv promise"

datatype test_event = Require string | Invoke jv jv

text \<open>
  Everything outside the program: the files (\<open>readFile\<close> is \<open>None\<close> when the read fails),
  the runtime's \<^verbatim>\<open>JSON.parse\<close> (\<open>None\<close> when it throws), the four operations of the
  Lambda service, the module loader (\<open>Inl\<close> when loading or the property read throws), and
  the order in which concurrent rejections arrive. Each remote operation is called at most
  once per request value in one run, so a function from the request to the reply covers
  every behaviour of the service.

  \<open>loop_rounds\<close> is the runtime's conversion of a string, an array or an object to a number,
  as the test \<^verbatim>\<open>i < length\<close> of a counting loop uses it: the number of rounds the test
  grants to a counter that starts at zero, \<open>Diverges\<close> when it grants every round (the
  value converts to infinity), \<open>Throws\<close> when the conversion throws.
\<close>

record world =
  readFile :: "string \<Rightarrow> string option"
  JSON_parse :: "string \<Rightarrow> jv option"
  lambda_getFunction :: "params \<Rightarrow> reply"
  lambda_createFunction :: "params \<Rightarrow> reply"
  lambda_updateFunctionConfiguration :: "params \<Rightarrow> reply"
  lambda_updateFunctionCode :: "params \<Rightarrow> reply"
  require :: "string \<Rightarrow> jv + (string \<Rightarrow> export)"
  race :: "jv list \<Rightarrow> nat"
  loop_rounds :: "jv \<Rightarrow> nat completion"

record DeployOptions =
  create_option :: "bool option"
  updateConfig_option :: "bool option"

text \<open>\<^verbatim>\<open>options && options.create\<close> and \<^verbatim>\<open>options && options.updateConfig\<close>.\<close>

definition options_create :: "DeployOptions option \<Rightarrow> bool" where
  "options_create options =
     (case options of None \<Rightarrow> False | Some opts \<Rightarrow> create_option opts = Some True)"

definition options_updateConfig :: "DeployOptions option \<Rightarrow> bool" where
  "options_updateConfig options =
     (case options of None \<Rightarrow> False | Some opts \<Rightarrow> updateConfig_option opts = Some True)"

section \<open>Reading documents\<close>

text \<open>
  \<open>readObject\<close>. After a parse error the promise is rejected and \<^verbatim>\<open>object\<close> stays
  undefined. A document that parses to a falsy value skips the \<^verbatim>\<open>if (object)\<close> block,
  where every \<^verbatim>\<open>resolve\<close> and the remaining \<^verbatim>\<open>reject\<close> stand. \<open>checkObject\<close> runs in
  the callback of \<^verbatim>\<open>fs.readFile\<close>, outside the executor of the promise: an exception it
  throws is caught by nothing, and the promise is never settled.
\<close>

definition readObject :: "world \<Rightarrow> string \<Rightarrow> string option \<Rightarrow> jv promise" where
  "readObject w file checkType =
     (case readFile w file of
        None \<Rightarrow> Rejected (JStr (''Failed to read file '' @ file))
      | Some data \<Rightarrow>
          (case JSON_parse w data of
             None \<Rightarrow> Rejected (JStr ''Invalid JSON'')
           | Some object \<Rightarrow>
               if truthy object then
                 (case checkType of
                    None \<Rightarrow> Resolved object
                  | Some t \<Rightarrow>
                      if t \<noteq> [] then
                        (case checkObject object t of
                           None \<Rightarrow> Pending
                         | Some result \<Rightarrow>
                             if result \<noteq> [] then Rejected (JStr result)
                             else Resolved object)
                      else Resolved object)
               else Pending))"

text \<open>
  The \<^verbatim>\<open>then\<close> callbacks of \<open>readConfig\<close> and \<open>test\<close>, which throw on a bad document.
  What a \<^verbatim>\<open>then\<close> callback throws rejects its promise, an exception of the shape predicate
  included.
\<close>

definition accept_config :: "jv \<Rightarrow> jv promise" where
  "accept_config cfg =
     (case all_of [isLambdaConfig cfg,
                   Some (isNEString (get cfg ''FunctionName'')),
                   Some (isNEString (get cfg ''Handler''))] of
        None \<Rightarrow> Rejected TypeError
      | Some ok \<Rightarrow>
          if ok then Resolved cfg else Rejected (JStr ''Invalid Lambda config''))"

definition accept_secrets :: "jv \<Rightarrow> jv promise" where
  "accept_secrets cfg =
     (case all_of [isLambdaSecrets cfg,
                   Some (isNEString (get cfg ''region'')),
                   Some (isNEString (get cfg ''Role''))] of
        None \<Rightarrow> Rejected TypeError
      | Some ok \<Rightarrow>
          if ok then Resolved cfg else Rejected (JStr ''Invalid Lambda secrets''))"

definition accept_tests :: "jv \<Rightarrow> jv promise" where
  "accept_tests obj =
     (case isLambdaTests obj of
        None \<Rightarrow> Rejected TypeError
      | Some ok \<Rightarrow>
          if ok then Resolved obj else Rejected (JStr ''Invalid Lambda tests''))"

text \<open>A field assignment made inside a \<^verbatim>\<open>then\<close> callback happens when the promise resolves.\<close>

definition resolved_or :: "jv promise \<Rightarrow> jv \<Rightarrow> jv" where
  "resolved_or p old = (case p of Resolved v \<Rightarrow> v | _ \<Rightarrow> old)"

definition readConfig :: "world \<Rightarrow> gdw \<Rightarrow> jv promise \<times> gdw" where
  "readConfig w st =
     (let c = then_promise
                (readObject w FILE_LAMBDA_CONFIG (Some FILE_LAMBDA_CONFIG)) accept_config;
          s = then_promise
                (readObject w FILE_LAMBDA_SECRETS (Some FILE_LAMBDA_SECRETS)) accept_secrets
      in (promise_all (race w) [c, s],
          st\<lparr>lambdaCfg := resolved_or c (lambdaCfg st),
             lambdaSecrets := resolved_or s (lambdaSecrets st)\<rparr>))"

text \<open>
  \<open>createLambdaService\<close> reads the configuration and then builds the client from the
  region and the credentials of the secrets; building it cannot fail, and the client is
  the remote service of \<open>world\<close>.
\<close>

definition createLambdaService :: "world \<Rightarrow> gdw \<Rightarrow> jv promise \<times> gdw" where
  "createLambdaService w st = readConfig w st"

definition readArchive :: "world \<Rightarrow> gdw \<Rightarrow> string promise" where
  "readArchive w st =
     (if isNEString (get (lambdaCfg st) ''archiveName'') then
        (case get (lambdaCfg st) ''archiveName'' of
           JStr archiveName \<Rightarrow>
             (case readFile w archiveName of
                None \<Rightarrow> Rejected (JStr (''Archive '' @ archiveName @ ''not found''))
              | Some data \<Rightarrow> Resolved data)
         | _ \<Rightarrow> Rejected (JStr ''Invalid archive name''))
      else Rejected (JStr ''Invalid archive name''))"

section \<open>Deploy\<close>

text \<open>
  Every function of this section returns, beside its promise, the remote calls it issued,
  in the order of issue.
\<close>

text \<open>
  \<open>checkLambda\<close>: \<^verbatim>\<open>getFunction\<close>, with the not-found error turned into a resolved marker
  when the \<^verbatim>\<open>create\<close> option is set.
\<close>

definition checkLambda ::
  "world \<Rightarrow> gdw \<Rightarrow> DeployOptions option \<Rightarrow> jv promise \<times> gdw \<times> call list" where
  "checkLambda w st options =
     (let request = [(''FunctionName'', Val (get (lambdaCfg st) ''FunctionName''))] in
      case lambda_getFunction w request of
        Err err \<Rightarrow>
          (if strict_eq (get (JObj err) ''code'') (JStr ''ResourceNotFoundException'') then
             (if options_create options then Resolved (JStr ERR_LAMBDA_NOT_FOUND)
              else Rejected (JStr ERR_LAMBDA_NOT_FOUND))
           else Rejected (JStr ''Lambda getFunction Error''),
           st, [GetFunction request])
      | Data data \<Rightarrow>
          (Resolved (JObj data), st\<lparr>lambdaGetInfo := JObj data\<rparr>, [GetFunction request]))"

text \<open>
  \<open>createFunction\<close>: the \<^verbatim>\<open>then\<close> callback issues the call and returns nothing, so the
  promise resolves with \<^verbatim>\<open>undefined\<close> once the archive is read. What the callback of
  \<^verbatim>\<open>lambda.createFunction\<close> returns (a rejected promise on error, a message otherwise)
  goes to the client, which drops it: the reply is not read here.
\<close>

definition createFunction :: "world \<Rightarrow> gdw \<Rightarrow> jv promise \<times> call list" where
  "createFunction w st =
     (case readArchive w st of
        Resolved result \<Rightarrow>
          (Resolved JUndefined,
           [CreateFunction
              [(''FunctionName'', Val (get (lambdaCfg st) ''FunctionName'')),
               (''Description'', Val (get (lambdaCfg st) ''Description'')),
               (''Handler'', Val (get (lambdaCfg st) ''Handler'')),
               (''Runtime'', Val (get (lambdaCfg st) ''Runtime'')),
               (''MemorySize'', Val (get (lambdaCfg st) ''MemorySize'')),
               (''Timeout'', Val (get (lambdaCfg st) ''Timeout'')),
               (''Publish'', Val (get (lambdaCfg st) ''Publish'')),
               (''Role'', Val (get (lambdaSecrets st) ''Role'')),
               (''Code'', Struct [(''ZipFile'', Buffer result)])]])
      | Rejected e \<Rightarrow> (Rejected e, [])
      | Pending \<Rightarrow> (Pending, []))"

definition updateConfig :: "world \<Rightarrow> gdw \<Rightarrow> jv promise \<times> call list" where
  "updateConfig w st =
     (let request =
            [(''FunctionName'', Val (get (lambdaCfg st) ''FunctionName'')),
             (''Description'', Val (get (lambdaCfg st) ''Description'')),
             (''Handler'', Val (get (lambdaCfg st) ''Handler'')),
             (''Runtime'', Val (get (lambdaCfg st) ''Runtime'')),
             (''MemorySize'', Val (get (lambdaCfg st) ''MemorySize'')),
             (''Timeout'', Val (get (lambdaCfg st) ''Timeout'')),
             (''Role'', Val (get (lambdaSecrets st) ''Role'')),
             (''Environment'', Val (get (lambdaSecrets st) ''Environment''))]
      in (case lambda_updateFunctionConfiguration w request of
            Err err \<Rightarrow> Rejected (JStr ''Error updating function configuration'')
          | Data data \<Rightarrow> Resolved (JObj data),
          [UpdateFunctionConfiguration request]))"

definition updateCode :: "world \<Rightarrow> params \<Rightarrow> jv promise \<times> call list" where
  "updateCode w config =
     (case lambda_updateFunctionCode w config of
        Err err \<Rightarrow> Rejected (JObj err)
      | Data data \<Rightarrow> Resolved (JObj data),
      [UpdateFunctionCode config])"

text \<open>
  \<open>updateFunctionCode\<close>. In the second \<^verbatim>\<open>then\<close> callback the name \<^verbatim>\<open>result\<close> is the
  callback's own parameter, the response of the dry run; that is what the source puts under
  \<^verbatim>\<open>ZipFile\<close> of the second request.
\<close>

definition updateFunctionCode :: "world \<Rightarrow> gdw \<Rightarrow> jv promise \<times> call list" where
  "updateFunctionCode w st =
     (case readArchive w st of
        Rejected e \<Rightarrow> (Rejected e, [])
      | Pending \<Rightarrow> (Pending, [])
      | Resolved archive \<Rightarrow>
          (case updateCode w
                  [(''FunctionName'', Val (get (lambdaCfg st) ''FunctionName'')),
                   (''Publish'', Val (get (lambdaCfg st) ''Publish'')),
                   (''ZipFile'', Buffer archive),
                   (''DryRun'', Val (JBool True))] of
             (Rejected e, calls) \<Rightarrow> (Rejected e, calls)
           | (Pending, calls) \<Rightarrow> (Pending, calls)
           | (Resolved result, calls) \<Rightarrow>
               if truthy (lambdaGetInfo st) \<and>
                  truthy (get (lambdaGetInfo st) ''Configuration'')
               then
                 (if \<not> strict_eq (get result ''CodeSha256'')
                        (get (get (lambdaGetInfo st) ''Configuration'') ''CodeSha256'')
                  then
                    (case updateCode w
                            [(''FunctionName'', Val (get (lambdaCfg st) ''FunctionName'')),
                             (''Publish'', Val (get (lambdaCfg st) ''Publish'')),
                             (''ZipFile'', Val result),
                             (''DryRun'', Val (JBool False))] of
                       (p, calls') \<Rightarrow> (p, calls @ calls'))
                  else (Resolved (JStr INFO_FUNCTION_CODE_UO_TO_DATE), calls))
               else (Rejected (JStr ''Invalid Lambda function information''), calls)))"

text \<open>
  \<open>deploy\<close>. \<open>updateConfig\<close> issues its call at once, before \<open>updateFunctionCode\<close> starts
  to read the archive; \<^verbatim>\<open>Promise.all\<close> cancels nothing, so the calls of both are issued
  whatever the other's outcome.
\<close>

definition deploy ::
  "world \<Rightarrow> gdw \<Rightarrow> DeployOptions option \<Rightarrow> jv promise \<times> call list" where
  "deploy w st options =
     (case createLambdaService w st of
        (Rejected e, st1) \<Rightarrow> (Rejected e, [])
      | (Pending, st1) \<Rightarrow> (Pending, [])
      | (Resolved v, st1) \<Rightarrow>
          (case checkLambda w st1 options of
             (Rejected e, st2, calls) \<Rightarrow> (Rejected e, calls)
           | (Pending, st2, calls) \<Rightarrow> (Pending, calls)
           | (Resolved result, st2, calls) \<Rightarrow>
               if strict_eq result (JStr ERR_LAMBDA_NOT_FOUND) then
                 (case createFunction w st2 of (p, calls') \<Rightarrow> (p, calls @ calls'))
               else if options_updateConfig options then
                 (case updateConfig w st2 of
                    (p1, calls1) \<Rightarrow>
                      (case updateFunctionCode w st2 of
                         (p2, calls2) \<Rightarrow>
                           (then_promise (promise_all (race w) [p1, p2])
                              (\<lambda>v. Resolved (JStr INFO_DEPLOY_COMPLETE)),
                            calls @ calls1 @ calls2)))
               else if \<not> checkLambdaConfig st2 (lambdaGetInfo st2) then
                 (Rejected (JStr ERR_LAMBDA_CONFIG), calls)
               else
                 (case updateFunctionCode w st2 of
                    (p2, calls2) \<Rightarrow>
                      (then_promise (promise_all (race w) [p2])
                         (\<lambda>v. Resolved (JStr INFO_DEPLOY_COMPLETE)),
                       calls @ calls2))))"

fun is_createFunction :: "call \<Rightarrow> bool" where
  "is_createFunction (CreateFunction request) = True"
| "is_createFunction c = False"

fun is_updateFunctionConfiguration :: "call \<Rightarrow> bool" where
  "is_updateFunctionConfiguration (UpdateFunctionConfiguration request) = True"
| "is_updateFunctionConfiguration c = False"

fun is_updateFunctionCode :: "call \<Rightarrow> bool" where
  "is_updateFunctionCode (UpdateFunctionCode request) = True"
| "is_updateFunctionCode c = False"

section \<open>The local test runner\<close>

text \<open>\<^verbatim>\<open>s.split(c)\<close> for a one-character separator: the empty string gives one empty token.\<close>

fun split_on :: "char \<Rightarrow> string \<Rightarrow> string list" where
  "split_on c [] = [[]]"
| "split_on c (x # xs) =
     (if x = c then [] # split_on c xs
      else (case split_on c xs of
              tok # toks \<Rightarrow> (x # tok) # toks
            | [] \<Rightarrow> [[x]]))"

text \<open>
  The values a counting loop \<^verbatim>\<open>length = v.length; for (i = 0; i < length; i++)\<close> reads as
  \<^verbatim>\<open>v[i]\<close>. Reading \<^verbatim>\<open>length\<close> of \<^verbatim>\<open>null\<close> or \<^verbatim>\<open>undefined\<close> throws. An array and a
  string have their own length; a number and a boolean have none, and a missing
  \<^verbatim>\<open>length\<close> fails the test \<^verbatim>\<open>i < length\<close> at once. An object is read through its
  property \<^verbatim>\<open>length\<close>: \<^verbatim>\<open>null\<close> counts as zero, \<^verbatim>\<open>true\<close> as one, a number as itself,
  and a string, an array or an object as \<open>loop_rounds\<close> says.
\<close>

definition array_like :: "world \<Rightarrow> jv \<Rightarrow> jv list completion" where
  "array_like w v =
     (case v of
        JUndefined \<Rightarrow> Throws TypeError
      | JNull \<Rightarrow> Throws TypeError
      | JArr xs \<Rightarrow> Normal xs
      | JStr s \<Rightarrow> Normal (map (\<lambda>c. JStr [c]) s)
      | JObj kvs \<Rightarrow>
          (case get v ''length'' of
             JUndefined \<Rightarrow> Normal []
           | JNull \<Rightarrow> Normal []
           | JBool b \<Rightarrow> Normal (if b then [get v ''0''] else [])
           | JNum n \<Rightarrow> Normal (map (\<lambda>i. get v (index_key i)) [0..<nat n])
           | len \<Rightarrow>
               (case loop_rounds w len of
                  Normal n \<Rightarrow> Normal (map (\<lambda>i. get v (index_key i)) [0..<n])
                | Throws e \<Rightarrow> Throws e
                | Diverges \<Rightarrow> Diverges))
      | _ \<Rightarrow> Normal [])"

text \<open>
  \<open>executeEventTest\<close>: the handler is called inside the promise's executor, so a value that
  is not a function rejects the promise. A handler is given by what it makes of its
  callback: \<open>Resolved\<close> for \<^verbatim>\<open>callback(null, data)\<close>, \<open>Rejected\<close> for an error or a throw,
  \<open>Pending\<close> when it never calls back.
\<close>

definition executeEventTest :: "export \<Rightarrow> jv \<Rightarrow> jv \<Rightarrow> jv promise \<times> test_event list" where
  "executeEventTest handler context event =
     (case handler of
        Fn f \<Rightarrow> (f event context, [Invoke event context])
      | _ \<Rightarrow> (Rejected TypeError, []))"

text \<open>
  \<open>executeContextTest\<close> invokes the handler once per event. A loop over the events that
  never ends goes on invoking the handler; the invocations of such a loop are not listed.
\<close>

definition executeContextTest ::
  "world \<Rightarrow> export \<Rightarrow> jv \<Rightarrow> (jv promise \<times> test_event list) completion" where
  "executeContextTest w handler test =
     (case array_like w (get test ''events'') of
        Throws e \<Rightarrow> Throws e
      | Diverges \<Rightarrow> Diverges
      | Normal events \<Rightarrow>
          (let rs = map (executeEventTest handler (get test ''context'')) events
           in Normal (promise_all (race w) (map fst rs), concat (map snd rs))))"

text \<open>
  The loop of \<open>runTests\<close> over the test cases: the promises pushed, or how the first test
  case that does not return ends, and the events up to that point.
\<close>

fun runTests_loop ::
  "world \<Rightarrow> export \<Rightarrow> jv list \<Rightarrow> jv promise list completion \<times> test_event list" where
  "runTests_loop w handler [] = (Normal [], [])"
| "runTests_loop w handler (t # ts) =
     (case executeContextTest w handler t of
        Throws e \<Rightarrow> (Throws e, [])
      | Diverges \<Rightarrow> (Diverges, [])
      | Normal (p, events) \<Rightarrow>
          (case runTests_loop w handler ts of
             (Normal ps, events') \<Rightarrow> (Normal (p # ps), events @ events')
           | (Throws e, events') \<Rightarrow> (Throws e, events @ events')
           | (Diverges, events') \<Rightarrow> (Diverges, events @ events')))"

text \<open>
  \<open>runTests\<close> is called inside a \<^verbatim>\<open>then\<close> callback: what it throws rejects the promise of
  \<open>test\<close>, and when it never returns that promise is never settled. The module is loaded
  from \<^verbatim>\<open>module + '.js'\<close> in the working directory.
\<close>

definition runTests :: "world \<Rightarrow> gdw \<Rightarrow> jv promise \<times> test_event list" where
  "runTests w st =
     (case get (lambdaCfg st) ''Handler'' of
        JStr h \<Rightarrow>
          (let splits = split_on CHR ''.'' h in
           if length splits \<noteq> 2 then (Rejected (JStr ''Invalid handler''), [])
           else
             (let module = splits ! 0;
                  eventHandler = splits ! 1;
                  filePath = module @ ''.js''
              in case require w filePath of
                   Inl err \<Rightarrow> (Rejected err, [Require filePath])
                 | Inr exports \<Rightarrow>
                     (case exports eventHandler of
                        Falsy \<Rightarrow> (Rejected (JStr ''invalid handler object''), [Require filePath])
                      | handler \<Rightarrow>
                          (case array_like w (lambdaTests st) of
                             Throws e \<Rightarrow> (Rejected e, [Require filePath])
                           | Diverges \<Rightarrow> (Pending, [Require filePath])
                           | Normal tests \<Rightarrow>
                               (case runTests_loop w handler tests of
                                  (Throws e, events) \<Rightarrow>
                                    (Rejected e, Require filePath # events)
                                | (Diverges, events) \<Rightarrow>
                                    (Pending, Require filePath # events)
                                | (Normal ps, events) \<Rightarrow>
                                    (promise_all (race w) ps, Require filePath # events))))))
      | _ \<Rightarrow> (Rejected TypeError, []))"

text \<open>The file \<open>test\<close> reads its cases from: the argument when it is a non-empty string.\<close>

definition testFile_of :: "string option \<Rightarrow> string" where
  "testFile_of testFileName =
     (case testFileName of
        None \<Rightarrow> FILE_LAMBDA_TESTS
      | Some n \<Rightarrow> if n \<noteq> [] \<and> isNEString (JStr n) then n else FILE_LAMBDA_TESTS)"

definition test :: "world \<Rightarrow> gdw \<Rightarrow> string option \<Rightarrow> jv promise \<times> test_event list" where
  "test w st testFileName =
     (let testFile = testFile_of testFileName;
          c = then_promise
                (readObject w FILE_LAMBDA_CONFIG (Some FILE_LAMBDA_CONFIG)) accept_config;
          t = then_promise (readObject w testFile (Some FILE_LAMBDA_TESTS)) accept_tests;
          st' = st\<lparr>lambdaCfg := resolved_or c (lambdaCfg st),
                   lambdaTests := resolved_or t (lambdaTests st)\<rparr>
      in case promise_all (race w) [c, t] of
           Resolved v \<Rightarrow> runTests w st'
         | Rejected e \<Rightarrow> (Rejected e, [])
         | Pending \<Rightarrow> (Pending, []))"

section \<open>Environment values as the interface declares them\<close>

text \<open>
  \<open>compareEnvironment\<close> is declared on \<^verbatim>\<open>EnvironmentResponse | null | undefined\<close>, where
  \<^verbatim>\<open>Variables\<close> is optional and maps names to strings. \<open>is_environment\<close> holds of the
  values of that type (other properties, such as \<^verbatim>\<open>Error\<close>, are free), and
  \<open>variables_of\<close> is the mapping such a value stands for: empty when the value or its
  \<^verbatim>\<open>Variables\<close> is absent.
\<close>

definition is_variables :: "jv \<Rightarrow> bool" where
  "is_variables v =
     (case v of
        JObj kvs \<Rightarrow> list_all (\<lambda>kv. case snd kv of JStr s \<Rightarrow> True | _ \<Rightarrow> False) kvs
      | _ \<Rightarrow> False)"

definition is_environment :: "jv \<Rightarrow> bool" where
  "is_environment env =
     (case env of
        JUndefined \<Rightarrow> True
      | JNull \<Rightarrow> True
      | JObj kvs \<Rightarrow>
          (case get env ''Variables'' of
             JUndefined \<Rightarrow> True
           | JNull \<Rightarrow> True
           | v \<Rightarrow> is_variables v)
      | _ \<Rightarrow> False)"

definition variables_of :: "jv \<Rightarrow> (string \<rightharpoonup> string)" where
  "variables_of env =
     (case env of
        JObj kvs \<Rightarrow>
          (case get env ''Variables'' of
             JObj vs \<Rightarrow> (\<lambda>k. case map_of vs k of Some (JStr s) \<Rightarrow> Some s | _ \<Rightarrow> None)
           | _ \<Rightarrow> Map.empty)
      | _ \<Rightarrow> Map.empty)"

section \<open>The configuration equality of the specification\<close>

text \<open>
  Section 4.5 of the specification in its own words: the local configuration differs from
  the remote snapshot when one of FunctionName, Description, Handler, Runtime, MemorySize,
  Timeout (local value from the configuration), Role (local value from the secrets) or
  the environment variables differs. The snapshot is the object \<open>deploy\<close> hands to
  \<open>checkLambdaConfig\<close>: the response of \<^verbatim>\<open>getFunction\<close> as stored in \<open>lambdaGetInfo\<close>.
\<close>

definition differs_in_compared_field :: "jv \<Rightarrow> jv \<Rightarrow> jv \<Rightarrow> bool" where
  "differs_in_compared_field cfg secrets remote =
     (list_ex (\<lambda>field. \<not> strict_eq (get remote field) (get cfg field))
        [''FunctionName'', ''Description'', ''Handler'', ''Runtime'', ''MemorySize'',
         ''Timeout''] \<or>
      \<not> strict_eq (get remote ''Role'') (get secrets ''Role'') \<or>
      \<not> compareEnvironment (get remote ''Environment'') (get secrets ''Environment''))"

section \<open>Concrete worlds\<close>

text \<open>
  A working directory with a configuration, secrets, the archive \<^verbatim>\<open>code.zip\<close> and a test
  file, and a service that knows no function, fails every create and accepts every update,
  answering a code update with the hash \<^verbatim>\<open>new\<close>. The theorems below vary it by record
  update.
\<close>

definition example_config :: "string \<Rightarrow> string \<Rightarrow> jv" where
  "example_config archiveName handler =
     JObj [(''archiveName'', JStr archiveName), (''FunctionName'', JStr ''f''),
           (''Description'', JStr ''demo''), (''Handler'', JStr handler),
           (''Publish'', JBool False), (''Runtime'', JStr ''nodejs6.10''),
           (''MemorySize'', JNum 128), (''Timeout'', JNum 3)]"

definition example_secrets :: jv where
  "example_secrets =
     JObj [(''region'', JStr ''eu-west-1''), (''profile'', JStr []),
           (''accessKeyId'', JStr []), (''secretAccessKey'', JStr []),
           (''Role'', JStr ''role''),
           (''Environment'', JObj [(''Variables'', JObj [])])]"

definition example_world :: "jv \<Rightarrow> jv \<Rightarrow> jv \<Rightarrow> world" where
  "example_world cfg secrets tests =
     \<lparr>readFile = (\<lambda>file.
          if file = ''lambda-config.json'' then Some ''C''
          else if file = ''lambda-secrets.json'' then Some ''S''
          else if file = ''lambda-tests.json'' then Some ''T''
          else if file = ''code.zip'' then Some ''PK''
          else None),
       JSON_parse = (\<lambda>data.
          if data = ''C'' then Some cfg
          else if data = ''S'' then Some secrets
          else if data = ''T'' then Some tests
          else None),
       lambda_getFunction = (\<lambda>request. Err [(''code'', JStr ''ResourceNotFoundException'')]),
       lambda_createFunction = (\<lambda>request. Err [(''code'', JStr ''ServiceException'')]),
       lambda_updateFunctionConfiguration = (\<lambda>request. Data []),
       lambda_updateFunctionCode = (\<lambda>request. Data [(''CodeSha256'', JStr ''new'')]),
       require = (\<lambda>filePath. Inl TypeError),
       race = (\<lambda>rejected. 0),
       loop_rounds = (\<lambda>length. Normal 0)\<rparr>"

text \<open>A fresh \<^verbatim>\<open>GdwAwsLambda\<close> object: no field is assigned yet.\<close>

definition fresh :: gdw where
  "fresh = \<lparr>lambdaCfg = JUndefined, lambdaSecrets = JUndefined,
            lambdaTests = JUndefined, lambdaGetInfo = JUndefined\<rparr>"

text \<open>Deploy options as a caller writes them: \<^verbatim>\<open>{create: ..., updateConfig: ...}\<close>.\<close>

definition options_of :: "bool option \<Rightarrow> bool option \<Rightarrow> DeployOptions option" where
  "options_of c u = Some \<lparr>create_option = c, updateConfig_option = u\<rparr>"

text \<open>
  \<open>world_not_found\<close>: the function does not exist remotely. \<open>world_no_archive\<close>: the
  same, with the empty \<^verbatim>\<open>archiveName\<close> that \<^verbatim>\<open>init\<close> writes into a new configuration.
  \<open>world_create_succeeds\<close>: the service accepts the create call.
\<close>

definition world_not_found :: world where
  "world_not_found =
     example_world (example_config ''code.zip'' ''index.handler'') example_secrets (JArr [])"

definition world_no_archive :: world where
  "world_no_archive =
     example_world (example_config [] ''index.handler'') example_secrets (JArr [])"

definition world_create_succeeds :: world where
  "world_create_succeeds = world_not_found\<lparr>lambda_createFunction := (\<lambda>request. Data [])\<rparr>"

text \<open>
  \<open>world_timeout_differs\<close>: the function exists and its response carries the compared
  fields, equal to the local ones but for \<^verbatim>\<open>Timeout\<close>. \<open>world_code_changed\<close>: the function
  exists with the code hash \<^verbatim>\<open>old\<close>, while a dry run answers \<^verbatim>\<open>new\<close>.
\<close>

definition world_timeout_differs :: world where
  "world_timeout_differs =
     world_not_found\<lparr>lambda_getFunction := (\<lambda>request.
        Data [(''FunctionName'', JStr ''f''), (''Description'', JStr ''demo''),
              (''Handler'', JStr ''index.handler''), (''Runtime'', JStr ''nodejs6.10''),
              (''MemorySize'', JNum 128), (''Timeout'', JNum 30), (''Role'', JStr ''role'')])\<rparr>"

definition world_code_changed :: world where
  "world_code_changed =
     world_not_found\<lparr>lambda_getFunction := (\<lambda>request.
        Data [(''Configuration'',
               JObj [(''FunctionName'', JStr ''f''), (''CodeSha256'', JStr ''old'')])])\<rparr>"

text \<open>The fields of the object after the configuration is read, and after \<open>checkLambda\<close>.\<close>

definition loaded :: gdw where
  "loaded = fresh\<lparr>lambdaCfg := example_config ''code.zip'' ''index.handler'',
                  lambdaSecrets := example_secrets\<rparr>"

definition loaded_no_archive :: gdw where
  "loaded_no_archive = fresh\<lparr>lambdaCfg := example_config [] ''index.handler'',
                             lambdaSecrets := example_secrets\<rparr>"

definition loaded_found :: gdw where
  "loaded_found =
     loaded\<lparr>lambdaGetInfo :=
        JObj [(''Configuration'',
               JObj [(''FunctionName'', JStr ''f''), (''CodeSha256'', JStr ''old'')])]\<rparr>"

text \<open>The request \<open>createFunction\<close> builds from \<open>loaded\<close> and the bytes of the archive.\<close>

definition example_create_request :: params where
  "example_create_request =
     [(''FunctionName'', Val (JStr ''f'')), (''Description'', Val (JStr ''demo'')),
      (''Handler'', Val (JStr ''index.handler'')), (''Runtime'', Val (JStr ''nodejs6.10'')),
      (''MemorySize'', Val (JNum 128)), (''Timeout'', Val (JNum 3)),
      (''Publish'', Val (JBool False)), (''Role'', Val (JStr ''role'')),
      (''Code'', Struct [(''ZipFile'', Buffer ''PK'')])]"


text \<open>A configuration file whose text parses to the given document.\<close>

definition world_falsy_document :: "jv \<Rightarrow> world" where
  "world_falsy_document document =
     example_world document example_secrets (JArr [])"

text \<open>
  \<open>world_handler_without_dot\<close>: the handler is named without a dot; one test case with one
  event; every module path loads and exports a handler that succeeds.
\<close>

definition example_tests :: jv where
  "example_tests =
     JArr [JObj [(''context'', JObj []), (''events'', JArr [JObj [(''key'', JStr ''value'')]])]]"

definition world_handler_without_dot :: world where
  "world_handler_without_dot =
     (example_world (example_config ''code.zip'' ''indexonlyexport'') example_secrets
        example_tests)
     \<lparr>require := (\<lambda>filePath. Inr (\<lambda>name. Fn (\<lambda>event context. Resolved event)))\<rparr>"

section \<open>Properties of the environment comparison\<close>

lemma same_values_iff:
  "same_values v1 v2 ks = (\<forall>k\<in>set ks. strict_eq (get v1 k) (get v2 k))"
  by (induction ks) auto

lemma strict_eq_JStr: "strict_eq (JStr s) v = (v = JStr s)"
  by (cases v) auto

lemma length_keys_card: "length (remdups (map fst vs)) = card (fst ` set vs)"
  by (metis length_remdups_card_conv set_map)

lemma vars_lookup:
  assumes "list_all (\<lambda>kv. case snd kv of JStr s \<Rightarrow> True | _ \<Rightarrow> False) vs"
  shows "k \<in> fst ` set vs \<Longrightarrow> \<exists>s. map_of vs k = Some (JStr s)"
  using assms
  by (induction vs) (auto split: jv.splits)

lemma dom_vars:
  assumes "list_all (\<lambda>kv. case snd kv of JStr s \<Rightarrow> True | _ \<Rightarrow> False) vs"
  shows "dom (\<lambda>k. case map_of vs k of Some (JStr s) \<Rightarrow> Some s | _ \<Rightarrow> None) = fst ` set vs"
proof -
  have "\<And>k. k \<in> fst ` set vs \<Longrightarrow> \<exists>s. map_of vs k = Some (JStr s)"
    using vars_lookup [OF assms] .
  moreover have "\<And>k. k \<notin> fst ` set vs \<Longrightarrow> map_of vs k = None"
    by (simp add: map_of_eq_None_iff)
  ultimately show ?thesis
    by (fastforce simp: dom_def split: option.splits jv.splits)
qed

lemma env_empty_iff:
  assumes "is_environment env"
  shows "(isEmpty env \<or> isObject env \<and> truthy env \<and> isEmpty (get env ''Variables''))
           = (dom (variables_of env) = {})"
proof (cases env)
  case (JObj kvs)
  show ?thesis
  proof (cases "get env ''Variables''")
    case (JObj vs)
    with assms \<open>env = JObj kvs\<close> have tv: "list_all (\<lambda>kv. case snd kv of JStr s \<Rightarrow> True | _ \<Rightarrow> False) vs"
      by (simp add: is_environment_def is_variables_def)
    have "dom (variables_of env) = fst ` set vs"
      using dom_vars [OF tv] JObj \<open>env = JObj kvs\<close> by (simp add: variables_of_def)
    moreover have "kvs \<noteq> []" using JObj \<open>env = JObj kvs\<close> by auto
    ultimately show ?thesis using JObj \<open>env = JObj kvs\<close>
      by (auto simp: isEmpty_def isObject_def)
  qed (use assms JObj in \<open>auto simp: isEmpty_def isObject_def variables_of_def is_environment_def is_variables_def\<close>)
qed (use assms in \<open>auto simp: isEmpty_def isObject_def variables_of_def is_environment_def\<close>)

lemma env_nonempty_shape:
  assumes "is_environment env" and "dom (variables_of env) \<noteq> {}"
  obtains kvs vs where "env = JObj kvs" and "get env ''Variables'' = JObj vs"
    and "list_all (\<lambda>kv. case snd kv of JStr s \<Rightarrow> True | _ \<Rightarrow> False) vs"
    and "dom (variables_of env) = fst ` set vs"
proof -
  from assms obtain kvs where e: "env = JObj kvs"
    by (cases env) (auto simp: variables_of_def is_environment_def)
  from assms e obtain vs where v: "get env ''Variables'' = JObj vs"
    by (cases "get env ''Variables''") (auto simp: variables_of_def)
  from assms(1) e v have tv: "list_all (\<lambda>kv. case snd kv of JStr s \<Rightarrow> True | _ \<Rightarrow> False) vs"
    by (simp add: is_environment_def is_variables_def)
  have "dom (variables_of env) = fst ` set vs"
    using dom_vars [OF tv] e v by (simp add: variables_of_def)
  with e v tv show thesis using that by blast
qed

lemma variables_of_lookup:
  assumes "env = JObj kvs" and "get env ''Variables'' = JObj vs"
  shows "variables_of env k = (case get (JObj vs) k of JStr s \<Rightarrow> Some s | _ \<Rightarrow> None)"
  using assms by (auto simp: variables_of_def split: option.splits jv.splits)

lemma compare_nonempty:
  assumes A: "is_environment A" "dom (variables_of A) \<noteq> {}"
      and B: "is_environment B" "dom (variables_of B) \<noteq> {}"
  shows "compareEnvironment A B =
           (card (dom (variables_of A)) = card (dom (variables_of B)) \<and>
            (\<forall>k\<in>dom (variables_of A). variables_of A k = variables_of B k))"
proof -
  from A obtain ka va where a: "A = JObj ka" "get A ''Variables'' = JObj va"
      "list_all (\<lambda>kv. case snd kv of JStr s \<Rightarrow> True | _ \<Rightarrow> False) va"
      "dom (variables_of A) = fst ` set va"
    by (rule env_nonempty_shape)
  from B obtain kb vb where b: "B = JObj kb" "get B ''Variables'' = JObj vb"
      "list_all (\<lambda>kv. case snd kv of JStr s \<Rightarrow> True | _ \<Rightarrow> False) vb"
      "dom (variables_of B) = fst ` set vb"
    by (rule env_nonempty_shape)
  have nea: "\<not> (isEmpty A \<or> isObject A \<and> truthy A \<and> isEmpty (get A ''Variables''))"
    using env_empty_iff [OF A(1)] A(2) by simp
  have neb: "\<not> (isEmpty B \<or> isObject B \<and> truthy B \<and> isEmpty (get B ''Variables''))"
    using env_empty_iff [OF B(1)] B(2) by simp
  have obj: "isObject A" "truthy A" "isObject (JObj va)" "truthy (JObj va)"
       "isObject B" "truthy B" "isObject (JObj vb)" "truthy (JObj vb)"
    using a(1) b(1) by (simp_all add: isObject_def)
  have cmp: "compareEnvironment A B =
      (length (remdups (map fst va)) = length (remdups (map fst vb)) \<and>
       same_values (JObj va) (JObj vb) (remdups (map fst va)))"
    unfolding compareEnvironment_def using nea neb obj a(2) b(2)
    by (simp add: Let_def)
  have vals: "strict_eq (get (JObj va) k) (get (JObj vb) k) = (variables_of A k = variables_of B k)"
    if "k \<in> fst ` set va" for k
  proof -
    from vars_lookup [OF a(3) that] obtain s where s: "map_of va k = Some (JStr s)" by blast
    have "variables_of A k = Some s"
      using s by (simp add: variables_of_lookup [OF a(1) a(2)])
    moreover have "strict_eq (get (JObj va) k) (get (JObj vb) k) = (get (JObj vb) k = JStr s)"
      using s by (simp add: strict_eq_JStr)
    moreover have "(variables_of B k = Some s) = (get (JObj vb) k = JStr s)"
      by (auto simp: variables_of_lookup [OF b(1) b(2)] split: jv.splits)
    ultimately show ?thesis by auto
  qed
  show ?thesis
    unfolding cmp same_values_iff length_keys_card a(4) b(4)
    using vals by auto
qed

lemma env_nonempty_iff:
  assumes "is_environment env"
  shows "(isObject env \<and> truthy env \<and> isObject (get env ''Variables'') \<and>
          length (Object_keys (get env ''Variables'')) > 0)
           = (dom (variables_of env) \<noteq> {})"
proof (cases "dom (variables_of env) = {}")
  case True
  have "\<not> (isObject env \<and> isObject (get env ''Variables'') \<and>
          length (Object_keys (get env ''Variables'')) > 0)"
  proof (cases env)
    case (JObj kvs)
    show ?thesis
    proof (cases "get env ''Variables''")
      case (JObj vs)
      with assms \<open>env = JObj kvs\<close>
      have tv: "list_all (\<lambda>kv. case snd kv of JStr s \<Rightarrow> True | _ \<Rightarrow> False) vs"
        by (simp add: is_environment_def is_variables_def)
      have "dom (variables_of env) = fst ` set vs"
        using dom_vars [OF tv] JObj \<open>env = JObj kvs\<close> by (simp add: variables_of_def)
      with True have "vs = []" by simp
      with JObj show ?thesis by simp
    qed (use assms JObj in \<open>auto simp: isObject_def is_environment_def is_variables_def\<close>)
  qed (use assms in \<open>auto simp: isObject_def is_environment_def\<close>)
  with True show ?thesis by simp
next
  case False
  from assms False obtain kvs vs where "env = JObj kvs" "get env ''Variables'' = JObj vs"
      "dom (variables_of env) = fst ` set vs"
    by (rule env_nonempty_shape)
  with False show ?thesis by (auto simp: isObject_def)
qed

lemma compareEnvironment_maps:
  assumes A: "is_environment A" and B: "is_environment B"
  shows "compareEnvironment A B = (variables_of A = variables_of B)"
proof (cases "dom (variables_of A) = {}")
  case eA: True
  show ?thesis
  proof (cases "dom (variables_of B) = {}")
    case True
    with eA have "compareEnvironment A B"
      unfolding compareEnvironment_def
      using env_empty_iff [OF A] env_empty_iff [OF B]
        env_nonempty_iff [OF A] env_nonempty_iff [OF B] by simp
    moreover have "variables_of A = variables_of B" using eA True by simp
    ultimately show ?thesis by simp
  next
    case False
    with eA have "\<not> compareEnvironment A B"
      unfolding compareEnvironment_def
      using env_empty_iff [OF A] env_empty_iff [OF B]
        env_nonempty_iff [OF A] env_nonempty_iff [OF B] by simp
    moreover have "variables_of A \<noteq> variables_of B" using eA False by auto
    ultimately show ?thesis by simp
  qed
next
  case nA: False
  show ?thesis
  proof (cases "dom (variables_of B) = {}")
    case True
    with nA have "\<not> compareEnvironment A B"
      unfolding compareEnvironment_def
      using env_empty_iff [OF A] env_empty_iff [OF B]
        env_nonempty_iff [OF A] env_nonempty_iff [OF B] by simp
    moreover have "variables_of A \<noteq> variables_of B" using nA True by auto
    ultimately show ?thesis by simp
  next
    case False
    have fin: "finite (dom (variables_of B))"
      using env_nonempty_shape [OF B False] by (metis List.finite_set finite_imageI)
    have "(card (dom (variables_of A)) = card (dom (variables_of B)) \<and>
            (\<forall>k\<in>dom (variables_of A). variables_of A k = variables_of B k))
          = (variables_of A = variables_of B)" (is "?L = ?R")
    proof
      assume L: ?L
      then have sub: "dom (variables_of A) \<subseteq> dom (variables_of B)"
        by (auto simp: dom_def)
      with L fin have "dom (variables_of A) = dom (variables_of B)"
        by (simp add: card_subset_eq)
      with L show ?R
        by (intro ext) (metis domIff)
    next
      assume ?R then show ?L by simp
    qed
    then show ?thesis using compare_nonempty [OF A nA B False] by simp
  qed
qed

text \<open>
  Claim C3. On environment values, \<open>compareEnvironment\<close> is the equality of the variable
  mappings, case by case: both sides empty or absent, equal; one side empty and the other
  with at least one variable, unequal; both non-empty, equal exactly when the key sets are
  the same and every key has the same value on both sides. The mapping does not record an
  order of keys. The five examples of the specification follow, and a sixth with the keys
  in two orders.
\<close>

theorem compareEnvironment_rule:
  assumes "is_environment A" and "is_environment B"
  shows "(dom (variables_of A) = {} \<and> dom (variables_of B) = {} \<longrightarrow> compareEnvironment A B) \<and>
         (dom (variables_of A) = {} \<and> dom (variables_of B) \<noteq> {} \<longrightarrow> \<not> compareEnvironment A B) \<and>
         (dom (variables_of A) \<noteq> {} \<and> dom (variables_of B) = {} \<longrightarrow> \<not> compareEnvironment A B) \<and>
         (dom (variables_of A) \<noteq> {} \<and> dom (variables_of B) \<noteq> {} \<longrightarrow>
            compareEnvironment A B =
              (dom (variables_of A) = dom (variables_of B) \<and>
               (\<forall>k\<in>dom (variables_of A). variables_of A k = variables_of B k))) \<and>
         compareEnvironment (JObj []) (JObj [(''Variables'', JObj [])]) \<and>
         \<not> compareEnvironment (JObj [(''Variables'', JObj [(''X'', JStr ''1'')])])
              (JObj [(''Variables'', JObj [])]) \<and>
         compareEnvironment (JObj [(''Variables'', JObj [(''X'', JStr ''1'')])])
              (JObj [(''Variables'', JObj [(''X'', JStr ''1'')])]) \<and>
         \<not> compareEnvironment (JObj [(''Variables'', JObj [(''X'', JStr ''1'')])])
              (JObj [(''Variables'', JObj [(''X'', JStr ''2'')])]) \<and>
         \<not> compareEnvironment
              (JObj [(''Variables'', JObj [(''X'', JStr ''1''), (''Y'', JStr ''2'')])])
              (JObj [(''Variables'', JObj [(''Y'', JStr ''2'')])]) \<and>
         compareEnvironment
              (JObj [(''Variables'', JObj [(''X'', JStr ''1''), (''Y'', JStr ''2'')])])
              (JObj [(''Variables'', JObj [(''Y'', JStr ''2''), (''X'', JStr ''1'')])])"
proof -
  have m: "compareEnvironment A B = (variables_of A = variables_of B)"
    using assms by (rule compareEnvironment_maps)
  have c1: "dom (variables_of A) = {} \<and> dom (variables_of B) = {} \<longrightarrow> compareEnvironment A B"
    unfolding m by simp
  have c2: "dom (variables_of A) = {} \<and> dom (variables_of B) \<noteq> {} \<longrightarrow> \<not> compareEnvironment A B"
    unfolding m by auto
  have c3: "dom (variables_of A) \<noteq> {} \<and> dom (variables_of B) = {} \<longrightarrow> \<not> compareEnvironment A B"
    unfolding m by auto
  have c4: "dom (variables_of A) \<noteq> {} \<and> dom (variables_of B) \<noteq> {} \<longrightarrow>
            compareEnvironment A B =
              (dom (variables_of A) = dom (variables_of B) \<and>
               (\<forall>k\<in>dom (variables_of A). variables_of A k = variables_of B k))"
    unfolding m by (auto intro!: ext) (metis domIff)
  have e1: "compareEnvironment (JObj []) (JObj [(''Variables'', JObj [])])"
    by (simp add: compareEnvironment_def isEmpty_def isObject_def)
  have e2: "\<not> compareEnvironment (JObj [(''Variables'', JObj [(''X'', JStr ''1'')])])
              (JObj [(''Variables'', JObj [])])"
    by (simp add: compareEnvironment_def isEmpty_def isObject_def)
  have e3: "compareEnvironment (JObj [(''Variables'', JObj [(''X'', JStr ''1'')])])
              (JObj [(''Variables'', JObj [(''X'', JStr ''1'')])])"
    by (simp add: compareEnvironment_def isEmpty_def isObject_def)
  have e4: "\<not> compareEnvironment (JObj [(''Variables'', JObj [(''X'', JStr ''1'')])])
              (JObj [(''Variables'', JObj [(''X'', JStr ''2'')])])"
    by (simp add: compareEnvironment_def isEmpty_def isObject_def)
  have e5: "\<not> compareEnvironment
              (JObj [(''Variables'', JObj [(''X'', JStr ''1''), (''Y'', JStr ''2'')])])
              (JObj [(''Variables'', JObj [(''Y'', JStr ''2'')])])"
    by (simp add: compareEnvironment_def isEmpty_def isObject_def)
  have e6: "compareEnvironment
              (JObj [(''Variables'', JObj [(''X'', JStr ''1''), (''Y'', JStr ''2'')])])
              (JObj [(''Variables'', JObj [(''Y'', JStr ''2''), (''X'', JStr ''1'')])])"
    by (simp add: compareEnvironment_def isEmpty_def isObject_def)
  show ?thesis
    by (intro conjI) (fact c1 c2 c3 c4 e1 e2 e3 e4 e5 e6)+
qed

theorem compareEnvironment_rule_witness:
  "is_environment JUndefined \<and>
   is_environment (JObj [(''Variables'', JObj [])]) \<and>
   is_environment (JObj [(''Variables'', JObj [(''X'', JStr ''1''), (''Y'', JStr ''2'')])]) \<and>
   is_environment (JObj [(''Variables'', JObj [(''Z'', JStr ''2''), (''X'', JStr ''1'')])]) \<and>
   dom (variables_of JUndefined) = {} \<and>
   dom (variables_of (JObj [(''Variables'', JObj [])])) = {} \<and>
   dom (variables_of (JObj [(''Variables'', JObj [(''X'', JStr ''1''), (''Y'', JStr ''2'')])])) \<noteq> {} \<and>
   dom (variables_of (JObj [(''Variables'', JObj [(''Z'', JStr ''2''), (''X'', JStr ''1'')])])) \<noteq> {} \<and>
   compareEnvironment JUndefined (JObj [(''Variables'', JObj [])]) \<and>
   \<not> compareEnvironment JUndefined
        (JObj [(''Variables'', JObj [(''X'', JStr ''1''), (''Y'', JStr ''2'')])]) \<and>
   \<not> compareEnvironment (JObj [(''Variables'', JObj [(''X'', JStr ''1''), (''Y'', JStr ''2'')])])
        JUndefined \<and>
   \<not> compareEnvironment (JObj [(''Variables'', JObj [(''X'', JStr ''1''), (''Y'', JStr ''2'')])])
        (JObj [(''Variables'', JObj [(''Z'', JStr ''2''), (''X'', JStr ''1'')])])"
proof -
  let ?E = "JObj [(''Variables'', JObj [])]"
  let ?P = "JObj [(''Variables'', JObj [(''X'', JStr ''1''), (''Y'', JStr ''2'')])]"
  let ?Q = "JObj [(''Variables'', JObj [(''Z'', JStr ''2''), (''X'', JStr ''1'')])]"
  have t: "is_environment JUndefined" "is_environment ?E" "is_environment ?P" "is_environment ?Q"
    by (simp_all add: is_environment_def is_variables_def)
  have d0: "dom (variables_of JUndefined) = {}" "dom (variables_of ?E) = {}"
    by (simp_all add: variables_of_def)
  have py: "variables_of ?P ''Y'' = Some ''2''" and qz: "variables_of ?Q ''Z'' = Some ''2''"
    and qy: "variables_of ?Q ''Y'' = None"
    by (simp_all add: variables_of_def)
  have yp: "''Y'' \<in> dom (variables_of ?P)" using py by (rule domI)
  have zq: "''Z'' \<in> dom (variables_of ?Q)" using qz by (rule domI)
  have yq: "''Y'' \<notin> dom (variables_of ?Q)" using qy by (simp only: domIff not_not)
  have d1: "dom (variables_of ?P) \<noteq> {}" "dom (variables_of ?Q) \<noteq> {}"
       "dom (variables_of ?P) \<noteq> dom (variables_of ?Q)"
    using yp zq yq by blast+
  note r1 = compareEnvironment_rule [OF t(1) t(2), THEN conjunct1]
  note r2 = compareEnvironment_rule [OF t(1) t(3), THEN conjunct2, THEN conjunct1]
  note r3 = compareEnvironment_rule [OF t(3) t(1), THEN conjunct2, THEN conjunct2, THEN conjunct1]
  note r4 = compareEnvironment_rule [OF t(3) t(4), THEN conjunct2, THEN conjunct2,
      THEN conjunct2, THEN conjunct1]
  have w1: "compareEnvironment JUndefined ?E"
    by (rule mp [OF r1]) (intro conjI d0)
  have w2: "\<not> compareEnvironment JUndefined ?P"
    by (rule mp [OF r2]) (intro conjI d0 d1)
  have w3: "\<not> compareEnvironment ?P JUndefined"
    by (rule mp [OF r3]) (intro conjI d0 d1)
  have "compareEnvironment ?P ?Q =
      (dom (variables_of ?P) = dom (variables_of ?Q) \<and>
       (\<forall>k\<in>dom (variables_of ?P). variables_of ?P k = variables_of ?Q k))"
    by (rule mp [OF r4]) (intro conjI d1)
  with d1(3) have w4: "\<not> compareEnvironment ?P ?Q"
    by (simp only: simp_thms)
  show ?thesis
    by (intro conjI) (fact t d0 d1 w1 w2 w3 w4)+
qed

text \<open>
  Claim C4. On environment values, \<open>compareEnvironment\<close> is symmetric and reflexive.
\<close>

theorem compareEnvironment_symmetric_reflexive:
  assumes "is_environment A" and "is_environment B"
  shows "compareEnvironment A B = compareEnvironment B A \<and> compareEnvironment A A"
  using assms by (auto simp: compareEnvironment_maps)

theorem compareEnvironment_symmetric_reflexive_witness:
  "is_environment (JObj [(''Variables'', JObj [(''X'', JStr ''1''), (''Y'', JStr ''2'')])]) \<and>
   is_environment (JObj [(''Error'', JNull)]) \<and>
   compareEnvironment (JObj [(''Variables'', JObj [(''X'', JStr ''1''), (''Y'', JStr ''2'')])])
        (JObj [(''Error'', JNull)]) =
   compareEnvironment (JObj [(''Error'', JNull)])
        (JObj [(''Variables'', JObj [(''X'', JStr ''1''), (''Y'', JStr ''2'')])]) \<and>
   compareEnvironment (JObj [(''Variables'', JObj [(''X'', JStr ''1''), (''Y'', JStr ''2'')])])
        (JObj [(''Variables'', JObj [(''X'', JStr ''1''), (''Y'', JStr ''2'')])])"
proof -
  let ?P = "JObj [(''Variables'', JObj [(''X'', JStr ''1''), (''Y'', JStr ''2'')])]"
  let ?Q = "JObj [(''Error'', JNull)]"
  have t: "is_environment ?P" "is_environment ?Q"
    by (simp_all add: is_environment_def is_variables_def)
  show ?thesis
    using t compareEnvironment_symmetric_reflexive [OF t] by simp
qed

section \<open>Document validation\<close>














section \<open>Properties of reading a document\<close>

text \<open>
  Claim C9 says that \<open>readObject\<close> always returns the document or fails. The source does
  neither for a file whose JSON text parses to a falsy value: for \<^verbatim>\<open>null\<close>, \<^verbatim>\<open>false\<close>,
  \<^verbatim>\<open>0\<close> and the empty string the promise of \<open>readObject\<close> never settles, with or without
  a check type.
\<close>

theorem readObject_falsy_document_never_settles:
  "readObject (world_falsy_document JNull) ''lambda-config.json'' None = Pending \<and>
   readObject (world_falsy_document (JBool False)) ''lambda-config.json'' None = Pending \<and>
   readObject (world_falsy_document (JNum 0)) ''lambda-config.json'' None = Pending \<and>
   readObject (world_falsy_document (JStr [])) ''lambda-config.json'' None = Pending \<and>
   readObject (world_falsy_document JNull) ''lambda-config.json'' (Some FILE_LAMBDA_CONFIG) =
     Pending"
  by (simp add: readObject_def world_falsy_document_def example_world_def)

text \<open>
  \<open>readObject\<close> leaves its promise unsettled for these documents and for a truthy document
  whose shape check throws, and for no other: an unreadable file, a parse error and a
  failed shape check reject, and every other truthy document resolves.
\<close>

lemma readObject_Pending_iff:
  "(readObject w file checkType = Pending) =
     (\<exists>data object. readFile w file = Some data \<and> JSON_parse w data = Some object \<and>
        (\<not> truthy object \<or>
         (\<exists>t. checkType = Some t \<and> t \<noteq> [] \<and> checkObject object t = None)))"
  by (auto simp: readObject_def Let_def split: option.splits)

section \<open>Properties of deploy\<close>

lemmas world_defs = example_world_def example_config_def example_secrets_def fresh_def
  world_not_found_def world_no_archive_def world_timeout_differs_def loaded_def

lemmas read_defs = readObject_def checkObject_def isLambdaConfig_def isLambdaSecrets_def
  isLambdaTests_def isLambdaTest_def all_of_def isNEString_def accept_config_def
  accept_secrets_def
  accept_tests_def then_promise_def promise_all_def resolved_or_def readConfig_def
  createLambdaService_def FILE_LAMBDA_CONFIG_def FILE_LAMBDA_SECRETS_def
  FILE_LAMBDA_TESTS_def

text \<open>\<open>checkLambdaConfig\<close> is the equality of section 4.5 on the object it is given.\<close>

lemma checkLambdaConfig_differs:
  "checkLambdaConfig st (JObj info) =
     (\<not> differs_in_compared_field (lambdaCfg st) (lambdaSecrets st) (JObj info))"
  by (simp add: checkLambdaConfig_def differs_in_compared_field_def)

text \<open>
  \<open>deploy\<close> gives \<open>checkLambdaConfig\<close> the whole response of \<^verbatim>\<open>getFunction\<close>, and
  \<open>updateFunctionCode\<close> reads the hash from the \<^verbatim>\<open>Configuration\<close> member of the same
  response. A response that has no \<^verbatim>\<open>FunctionName\<close> of its own, only one inside
  \<^verbatim>\<open>Configuration\<close>, differs from every local configuration that \<open>accept_config\<close> lets
  through.
\<close>

lemma response_without_FunctionName_differs:
  assumes "isNEString (get cfg ''FunctionName'')"
      and "get remote ''FunctionName'' = JUndefined"
  shows "differs_in_compared_field cfg secrets remote"
  using assms
  by (cases "get cfg ''FunctionName''")
     (simp_all add: differs_in_compared_field_def isNEString_def del: get.simps)

lemma readArchive_settles: "readArchive w st \<noteq> Pending"
  by (simp add: readArchive_def split: jv.splits option.splits)

lemma checkLambda_not_found:
  assumes "lambda_getFunction w
             [(''FunctionName'', Val (get (lambdaCfg st1) ''FunctionName''))] = Err err"
      and "get (JObj err) ''code'' = JStr ''ResourceNotFoundException''"
  shows "checkLambda w st1 options =
           (if options_create options then Resolved (JStr ERR_LAMBDA_NOT_FOUND)
            else Rejected (JStr ERR_LAMBDA_NOT_FOUND),
            st1, [GetFunction [(''FunctionName'', Val (get (lambdaCfg st1) ''FunctionName''))]])"
  using assms by (simp add: checkLambda_def del: get.simps)

lemma deploy_create_path:
  assumes loaded: "createLambdaService w st = (Resolved v, st1)"
      and missing: "lambda_getFunction w
             [(''FunctionName'', Val (get (lambdaCfg st1) ''FunctionName''))] = Err err"
      and code: "get (JObj err) ''code'' = JStr ''ResourceNotFoundException''"
      and "create": "options_create options"
  shows "deploy w st options =
           (fst (createFunction w st1),
            GetFunction [(''FunctionName'', Val (get (lambdaCfg st1) ''FunctionName''))] #
            snd (createFunction w st1))"
  using "create"
  by (simp add: deploy_def loaded checkLambda_not_found [OF missing code]
      split: prod.splits)

text \<open>Facts about the concrete worlds.\<close>

lemma loaded_not_found:
  "createLambdaService world_not_found fresh =
     (Resolved (JArr [example_config ''code.zip'' ''index.handler'', example_secrets]), loaded)"
  by (simp add: world_defs read_defs)

lemma loaded_world_no_archive:
  "createLambdaService world_no_archive fresh =
     (Resolved (JArr [example_config [] ''index.handler'', example_secrets]), loaded_no_archive)"
  by (simp add: world_defs read_defs loaded_no_archive_def)

lemma loaded_code_changed:
  "createLambdaService world_code_changed fresh =
     (Resolved (JArr [example_config ''code.zip'' ''index.handler'', example_secrets]), loaded)"
  by (simp add: world_defs read_defs world_code_changed_def)

lemma missing_not_found:
  "lambda_getFunction world_not_found
     [(''FunctionName'', Val (get (lambdaCfg loaded) ''FunctionName''))] =
   Err [(''code'', JStr ''ResourceNotFoundException'')]"
  by (simp add: world_defs)

lemma missing_no_archive:
  "lambda_getFunction world_no_archive
     [(''FunctionName'', Val (get (lambdaCfg loaded_no_archive) ''FunctionName''))] =
   Err [(''code'', JStr ''ResourceNotFoundException'')]"
  by (simp add: world_defs)

lemma code_not_found:
  "get (JObj [(''code'', JStr ''ResourceNotFoundException'')]) ''code'' =
   JStr ''ResourceNotFoundException''"
  by simp

lemma archive_not_found: "readArchive world_not_found loaded = Resolved ''PK''"
  by (simp add: readArchive_def isNEString_def world_defs)

lemma archive_no_archive:
  "readArchive world_no_archive loaded_no_archive = Rejected (JStr ''Invalid archive name'')"
  by (simp add: readArchive_def isNEString_def world_defs loaded_no_archive_def)

lemma name_loaded: "get (lambdaCfg loaded) ''FunctionName'' = JStr ''f''"
  by (simp add: world_defs)

lemma loaded_fields:
  "get (lambdaCfg loaded) ''FunctionName'' = JStr ''f''"
  "get (lambdaCfg loaded) ''Description'' = JStr ''demo''"
  "get (lambdaCfg loaded) ''Handler'' = JStr ''index.handler''"
  "get (lambdaCfg loaded) ''Runtime'' = JStr ''nodejs6.10''"
  "get (lambdaCfg loaded) ''MemorySize'' = JNum 128"
  "get (lambdaCfg loaded) ''Timeout'' = JNum 3"
  "get (lambdaCfg loaded) ''Publish'' = JBool False"
  "get (lambdaSecrets loaded) ''Role'' = JStr ''role''"
  "get (lambdaSecrets loaded) ''Environment'' = JObj [(''Variables'', JObj [])]"
  by (simp_all add: world_defs)

lemma name_loaded_no_archive: "get (lambdaCfg loaded_no_archive) ''FunctionName'' = JStr ''f''"
  by (simp add: world_defs loaded_no_archive_def)

lemma create_set: "options_create (options_of (Some True) None)"
  by (simp add: options_create_def options_of_def)

lemma create_unset: "\<not> options_create None"
  by (simp add: options_create_def)

text \<open>
  Claim C1. When the configuration is read, \<^verbatim>\<open>getFunction\<close> finds the function, the
  \<^verbatim>\<open>updateConfig\<close> option is unset and the local configuration and secrets differ from
  the remote snapshot in a compared field, \<open>deploy\<close> rejects with \<open>ERR_LAMBDA_CONFIG\<close>
  (\<^verbatim>\<open>Lambda config different\<close>) and its only remote call is \<^verbatim>\<open>getFunction\<close>: no code
  update, dry or real, and no configuration update.
\<close>

theorem deploy_rejects_config_mismatch:
  assumes loaded: "createLambdaService w st = (Resolved v, st1)"
      and found: "lambda_getFunction w
                    [(''FunctionName'', Val (get (lambdaCfg st1) ''FunctionName''))] = Data info"
      and unset: "\<not> options_updateConfig options"
      and differs: "differs_in_compared_field (lambdaCfg st1) (lambdaSecrets st1) (JObj info)"
  shows "deploy w st options =
           (Rejected (JStr ERR_LAMBDA_CONFIG),
            [GetFunction [(''FunctionName'', Val (get (lambdaCfg st1) ''FunctionName''))]]) \<and>
         \<not> list_ex is_updateFunctionCode (snd (deploy w st options)) \<and>
         \<not> list_ex is_updateFunctionConfiguration (snd (deploy w st options))"
proof -
  have chk: "checkLambda w st1 options =
      (Resolved (JObj info), st1\<lparr>lambdaGetInfo := JObj info\<rparr>,
       [GetFunction [(''FunctionName'', Val (get (lambdaCfg st1) ''FunctionName''))]])"
    using found by (simp add: checkLambda_def)
  have no: "\<not> checkLambdaConfig (st1\<lparr>lambdaGetInfo := JObj info\<rparr>) (JObj info)"
    using differs by (simp add: checkLambdaConfig_differs)
  have d: "deploy w st options =
           (Rejected (JStr ERR_LAMBDA_CONFIG),
            [GetFunction [(''FunctionName'', Val (get (lambdaCfg st1) ''FunctionName''))]])"
    using unset no by (simp add: deploy_def loaded chk)
  show ?thesis unfolding d by simp
qed

theorem deploy_rejects_config_mismatch_witness:
  "createLambdaService world_timeout_differs fresh =
     (Resolved (JArr [example_config ''code.zip'' ''index.handler'', example_secrets]), loaded) \<and>
   differs_in_compared_field (lambdaCfg loaded) (lambdaSecrets loaded)
     (JObj [(''FunctionName'', JStr ''f''), (''Description'', JStr ''demo''),
            (''Handler'', JStr ''index.handler''), (''Runtime'', JStr ''nodejs6.10''),
            (''MemorySize'', JNum 128), (''Timeout'', JNum 30), (''Role'', JStr ''role'')]) \<and>
   deploy world_timeout_differs fresh None =
     (Rejected (JStr ''Lambda config different''),
      [GetFunction [(''FunctionName'', Val (JStr ''f''))]])"
proof -
  have h1: "createLambdaService world_timeout_differs fresh =
     (Resolved (JArr [example_config ''code.zip'' ''index.handler'', example_secrets]), loaded)"
    by (simp add: world_defs read_defs)
  have h2: "lambda_getFunction world_timeout_differs
              [(''FunctionName'', Val (get (lambdaCfg loaded) ''FunctionName''))] =
            Data [(''FunctionName'', JStr ''f''), (''Description'', JStr ''demo''),
              (''Handler'', JStr ''index.handler''), (''Runtime'', JStr ''nodejs6.10''),
              (''MemorySize'', JNum 128), (''Timeout'', JNum 30), (''Role'', JStr ''role'')]"
    by (simp add: world_timeout_differs_def)
  have h3: "\<not> options_updateConfig None"
    by (simp add: options_updateConfig_def)
  have h4: "differs_in_compared_field (lambdaCfg loaded) (lambdaSecrets loaded)
     (JObj [(''FunctionName'', JStr ''f''), (''Description'', JStr ''demo''),
            (''Handler'', JStr ''index.handler''), (''Runtime'', JStr ''nodejs6.10''),
            (''MemorySize'', JNum 128), (''Timeout'', JNum 30), (''Role'', JStr ''role'')])"
    by (simp add: differs_in_compared_field_def world_defs)
  have n: "get (lambdaCfg loaded) ''FunctionName'' = JStr ''f''"
    by (simp add: world_defs)
  have e: "ERR_LAMBDA_CONFIG = ''Lambda config different''"
    by (simp add: ERR_LAMBDA_CONFIG_def)
  note r = deploy_rejects_config_mismatch [OF h1 h2 h3 h4, THEN conjunct1, unfolded n e]
  show ?thesis
    by (intro conjI) (fact h1 h4 r)+
qed

text \<open>
  Claim C5, amended. When \<^verbatim>\<open>getFunction\<close> reports that the function is not found:
  without the \<^verbatim>\<open>create\<close> option \<open>deploy\<close> rejects with \<open>ERR_LAMBDA_NOT_FOUND\<close> and
  \<^verbatim>\<open>getFunction\<close> is its only remote call; with the option and a readable archive it
  issues exactly one \<^verbatim>\<open>createFunction\<close> call and no update call; with the option and an
  archive that cannot be read it rejects with the archive's error and issues no
  \<^verbatim>\<open>createFunction\<close> call.
\<close>

theorem deploy_not_found:
  assumes loaded: "createLambdaService w st = (Resolved v, st1)"
      and missing: "lambda_getFunction w
             [(''FunctionName'', Val (get (lambdaCfg st1) ''FunctionName''))] = Err err"
      and code: "get (JObj err) ''code'' = JStr ''ResourceNotFoundException''"
  shows "(\<not> options_create options \<longrightarrow>
            deploy w st options =
              (Rejected (JStr ERR_LAMBDA_NOT_FOUND),
               [GetFunction [(''FunctionName'', Val (get (lambdaCfg st1) ''FunctionName''))]])) \<and>
         (options_create options \<and> readArchive w st1 = Resolved archive \<longrightarrow>
            length (filter is_createFunction (snd (deploy w st options))) = 1 \<and>
            \<not> list_ex is_updateFunctionConfiguration (snd (deploy w st options)) \<and>
            \<not> list_ex is_updateFunctionCode (snd (deploy w st options))) \<and>
         (options_create options \<and> readArchive w st1 = Rejected e \<longrightarrow>
            deploy w st options =
              (Rejected e,
               [GetFunction [(''FunctionName'', Val (get (lambdaCfg st1) ''FunctionName''))]]))"
proof (intro conjI impI)
  assume "\<not> options_create options"
  then show "deploy w st options =
      (Rejected (JStr ERR_LAMBDA_NOT_FOUND),
       [GetFunction [(''FunctionName'', Val (get (lambdaCfg st1) ''FunctionName''))]])"
    by (simp add: deploy_def loaded checkLambda_not_found [OF missing code])
next
  assume a: "options_create options \<and> readArchive w st1 = Resolved archive"
  then have d: "deploy w st options =
           (fst (createFunction w st1),
            GetFunction [(''FunctionName'', Val (get (lambdaCfg st1) ''FunctionName''))] #
            snd (createFunction w st1))"
    using deploy_create_path [OF loaded missing code] by simp
  from a show "length (filter is_createFunction (snd (deploy w st options))) = 1"
    unfolding d by (simp add: createFunction_def)
  from a show "\<not> list_ex is_updateFunctionConfiguration (snd (deploy w st options))"
    unfolding d by (simp add: createFunction_def)
  from a show "\<not> list_ex is_updateFunctionCode (snd (deploy w st options))"
    unfolding d by (simp add: createFunction_def)
next
  assume a: "options_create options \<and> readArchive w st1 = Rejected e"
  then have d: "deploy w st options =
           (fst (createFunction w st1),
            GetFunction [(''FunctionName'', Val (get (lambdaCfg st1) ''FunctionName''))] #
            snd (createFunction w st1))"
    using deploy_create_path [OF loaded missing code] by simp
  from a show "deploy w st options =
      (Rejected e,
       [GetFunction [(''FunctionName'', Val (get (lambdaCfg st1) ''FunctionName''))]])"
    unfolding d by (simp add: createFunction_def)
qed

theorem deploy_not_found_witness:
  "deploy world_not_found fresh None =
     (Rejected (JStr ERR_LAMBDA_NOT_FOUND), [GetFunction [(''FunctionName'', Val (JStr ''f''))]]) \<and>
   options_create (options_of (Some True) None) \<and>
   readArchive world_not_found loaded = Resolved ''PK'' \<and>
   length (filter is_createFunction
     (snd (deploy world_not_found fresh (options_of (Some True) None)))) = 1 \<and>
   readArchive world_no_archive loaded_no_archive = Rejected (JStr ''Invalid archive name'') \<and>
   deploy world_no_archive fresh (options_of (Some True) None) =
     (Rejected (JStr ''Invalid archive name''),
      [GetFunction [(''FunctionName'', Val (JStr ''f''))]])"
proof -
  note a = deploy_not_found [OF loaded_not_found missing_not_found code_not_found,
      where options = None, THEN conjunct1, THEN mp, OF create_unset, unfolded name_loaded]
  note b = deploy_not_found [OF loaded_not_found missing_not_found code_not_found,
      where options = "options_of (Some True) None" and archive = "''PK''",
      THEN conjunct2, THEN conjunct1, THEN mp, OF conjI, OF create_set archive_not_found,
      THEN conjunct1]
  note c = deploy_not_found [OF loaded_world_no_archive missing_no_archive code_not_found,
      where options = "options_of (Some True) None" and e = "JStr ''Invalid archive name''",
      THEN conjunct2, THEN conjunct2, THEN mp, OF conjI, OF create_set archive_no_archive,
      unfolded name_loaded_no_archive]
  show ?thesis
    by (intro conjI) (fact a b c create_set archive_not_found archive_no_archive)+
qed

text \<open>
  Claim C5 as stated promises one \<^verbatim>\<open>createFunction\<close> call whenever the option is set. With
  an empty \<^verbatim>\<open>archiveName\<close> the deploy rejects before any create call.
\<close>

theorem create_without_archive_counterexample:
  "options_create (options_of (Some True) None) \<and>
   createLambdaService world_no_archive fresh =
     (Resolved (JArr [example_config [] ''index.handler'', example_secrets]), loaded_no_archive) \<and>
   lambda_getFunction world_no_archive [(''FunctionName'', Val (JStr ''f''))] =
     Err [(''code'', JStr ''ResourceNotFoundException'')] \<and>
   deploy world_no_archive fresh (options_of (Some True) None) =
     (Rejected (JStr ''Invalid archive name''),
      [GetFunction [(''FunctionName'', Val (JStr ''f''))]]) \<and>
   length (filter is_createFunction
     (snd (deploy world_no_archive fresh (options_of (Some True) None)))) \<noteq> 1"
proof -
  have g: "lambda_getFunction world_no_archive [(''FunctionName'', Val (JStr ''f''))] =
     Err [(''code'', JStr ''ResourceNotFoundException'')]"
    by (simp add: world_defs)
  have d: "deploy world_no_archive fresh (options_of (Some True) None) =
     (Rejected (JStr ''Invalid archive name''),
      [GetFunction [(''FunctionName'', Val (JStr ''f''))]])"
    using deploy_create_path [OF loaded_world_no_archive missing_no_archive code_not_found
        create_set]
    by (simp add: createFunction_def archive_no_archive name_loaded_no_archive)
  have n: "length (filter is_createFunction
     (snd (deploy world_no_archive fresh (options_of (Some True) None)))) \<noteq> 1"
    unfolding d by simp
  show ?thesis
    by (intro conjI) (fact create_set loaded_world_no_archive g d n)+
qed

text \<open>
  Claim C6, amended. On the create path with a readable archive, the calls of \<open>deploy\<close> are
  \<^verbatim>\<open>getFunction\<close> and then \<^verbatim>\<open>createFunction\<close>, whose request carries the bytes of the
  archive under \<^verbatim>\<open>Code.ZipFile\<close>; no \<^verbatim>\<open>updateFunctionCode\<close> call, dry or real, follows.
\<close>

theorem create_path_ends_with_createFunction:
  assumes loaded: "createLambdaService w st = (Resolved v, st1)"
      and missing: "lambda_getFunction w
             [(''FunctionName'', Val (get (lambdaCfg st1) ''FunctionName''))] = Err err"
      and code: "get (JObj err) ''code'' = JStr ''ResourceNotFoundException''"
      and "create": "options_create options"
      and archive: "readArchive w st1 = Resolved archive"
  shows "snd (deploy w st options) =
           [GetFunction [(''FunctionName'', Val (get (lambdaCfg st1) ''FunctionName''))],
            CreateFunction
              [(''FunctionName'', Val (get (lambdaCfg st1) ''FunctionName'')),
               (''Description'', Val (get (lambdaCfg st1) ''Description'')),
               (''Handler'', Val (get (lambdaCfg st1) ''Handler'')),
               (''Runtime'', Val (get (lambdaCfg st1) ''Runtime'')),
               (''MemorySize'', Val (get (lambdaCfg st1) ''MemorySize'')),
               (''Timeout'', Val (get (lambdaCfg st1) ''Timeout'')),
               (''Publish'', Val (get (lambdaCfg st1) ''Publish'')),
               (''Role'', Val (get (lambdaSecrets st1) ''Role'')),
               (''Code'', Struct [(''ZipFile'', Buffer archive)])]] \<and>
         \<not> list_ex is_updateFunctionCode (snd (deploy w st options))"
proof -
  have d: "deploy w st options =
           (fst (createFunction w st1),
            GetFunction [(''FunctionName'', Val (get (lambdaCfg st1) ''FunctionName''))] #
            snd (createFunction w st1))"
    using deploy_create_path [OF loaded missing code "create"] .
  show ?thesis unfolding d by (simp add: createFunction_def archive)
qed

theorem create_path_ends_with_createFunction_witness:
  "options_create (options_of (Some True) None) \<and>
   readArchive world_not_found loaded = Resolved ''PK'' \<and>
   snd (deploy world_not_found fresh (options_of (Some True) None)) =
     [GetFunction [(''FunctionName'', Val (JStr ''f''))],
      CreateFunction example_create_request]"
proof -
  note a = create_path_ends_with_createFunction [OF loaded_not_found missing_not_found
      code_not_found create_set archive_not_found, THEN conjunct1,
      unfolded loaded_fields, folded example_create_request_def]
  show ?thesis
    by (intro conjI) (fact a create_set archive_not_found)+
qed

text \<open>
  Claim C6 as stated has a dry-run code update follow the creation. In \<open>world_not_found\<close>
  with the \<^verbatim>\<open>create\<close> option the create call is the last call of the deploy.
\<close>

theorem create_path_no_code_update_counterexample:
  "options_create (options_of (Some True) None) \<and>
   lambda_getFunction world_not_found [(''FunctionName'', Val (JStr ''f''))] =
     Err [(''code'', JStr ''ResourceNotFoundException'')] \<and>
   snd (deploy world_not_found fresh (options_of (Some True) None)) =
     [GetFunction [(''FunctionName'', Val (JStr ''f''))],
      CreateFunction example_create_request] \<and>
   \<not> list_ex is_updateFunctionCode
        (snd (deploy world_not_found fresh (options_of (Some True) None)))"
proof -
  have g: "lambda_getFunction world_not_found [(''FunctionName'', Val (JStr ''f''))] =
     Err [(''code'', JStr ''ResourceNotFoundException'')]"
    by (simp add: world_defs)
  have d: "snd (deploy world_not_found fresh (options_of (Some True) None)) =
     [GetFunction [(''FunctionName'', Val (JStr ''f''))],
      CreateFunction example_create_request]"
    using deploy_create_path [OF loaded_not_found missing_not_found code_not_found create_set]
    by (simp add: createFunction_def archive_not_found example_create_request_def
        loaded_fields)
  have n: "\<not> list_ex is_updateFunctionCode
        (snd (deploy world_not_found fresh (options_of (Some True) None)))"
    unfolding d by simp
  show ?thesis
    by (intro conjI) (fact create_set g d n)+
qed

text \<open>
  \<^verbatim>\<open>Promise.all\<close> resolves when every member does and is rejected with the payload of a
  rejected member otherwise. On the found path, \<open>deploy\<close> ends as the \<^verbatim>\<open>Promise.all\<close> of
  the configuration update (when the option asks for it) and the code update: it resolves
  with \<open>INFO_DEPLOY_COMPLETE\<close> when both resolve, and is rejected with the payload of one
  that is rejected.
\<close>

lemma rejections_set: "(e \<in> set (rejections ps)) = (Rejected e \<in> set ps)"
  by (induction ps rule: rejections.induct) auto

lemma resolutions_map_Resolved: "resolutions (map Resolved vs) = Some vs"
  by (induction vs) auto

lemma rejections_map_Resolved: "rejections (map Resolved vs) = []"
  by (induction vs) auto

lemma promise_all_Rejected:
  assumes "rejections ps \<noteq> []"
  shows "\<exists>e. Rejected e \<in> set ps \<and> promise_all first ps = Rejected e"
proof -
  let ?rs = "rejections ps"
  have "first ?rs mod length ?rs < length ?rs"
    using assms by simp
  then have "?rs ! (first ?rs mod length ?rs) \<in> set ?rs"
    by (rule nth_mem)
  then have "Rejected (?rs ! (first ?rs mod length ?rs)) \<in> set ps"
    by (simp only: rejections_set)
  moreover have "promise_all first ps = Rejected (?rs ! (first ?rs mod length ?rs))"
    using assms by (simp add: promise_all_def Let_def)
  ultimately show ?thesis by blast
qed

lemma promise_all_Resolved:
  "promise_all first (map Resolved vs) = Resolved (JArr vs)"
proof -
  have "resolutions (map Resolved vs) = Some vs"
    by (rule resolutions_map_Resolved)
  then show ?thesis
    by (simp add: promise_all_def rejections_map_Resolved)
qed

lemma deploy_found_path:
  assumes loaded: "createLambdaService w st = (Resolved v, st1)"
      and found: "lambda_getFunction w
                    [(''FunctionName'', Val (get (lambdaCfg st1) ''FunctionName''))] = Data info"
      and go: "options_updateConfig options \<or>
               checkLambdaConfig (st1\<lparr>lambdaGetInfo := JObj info\<rparr>) (JObj info)"
  shows "fst (deploy w st options) =
           then_promise
             (promise_all (race w)
                ((if options_updateConfig options
                  then [fst (updateConfig w (st1\<lparr>lambdaGetInfo := JObj info\<rparr>))] else []) @
                 [fst (updateFunctionCode w (st1\<lparr>lambdaGetInfo := JObj info\<rparr>))]))
             (\<lambda>v. Resolved (JStr INFO_DEPLOY_COMPLETE))"
proof -
  have chk: "checkLambda w st1 options =
      (Resolved (JObj info), st1\<lparr>lambdaGetInfo := JObj info\<rparr>,
       [GetFunction [(''FunctionName'', Val (get (lambdaCfg st1) ''FunctionName''))]])"
    using found by (simp add: checkLambda_def)
  show ?thesis
    using go by (auto simp: deploy_def loaded chk split: prod.splits)
qed

lemma found_path_surfaces_failures:
  assumes loaded: "createLambdaService w st = (Resolved v, st1)"
      and found: "lambda_getFunction w
                    [(''FunctionName'', Val (get (lambdaCfg st1) ''FunctionName''))] = Data info"
      and go: "options_updateConfig options \<or>
               checkLambdaConfig (st1\<lparr>lambdaGetInfo := JObj info\<rparr>) (JObj info)"
      and ps: "ps = (if options_updateConfig options
                  then [fst (updateConfig w (st1\<lparr>lambdaGetInfo := JObj info\<rparr>))] else []) @
                 [fst (updateFunctionCode w (st1\<lparr>lambdaGetInfo := JObj info\<rparr>))]"
  shows "(ps = map Resolved vs \<longrightarrow>
            fst (deploy w st options) = Resolved (JStr INFO_DEPLOY_COMPLETE)) \<and>
         (rejections ps \<noteq> [] \<longrightarrow>
            (\<exists>e. Rejected e \<in> set ps \<and> fst (deploy w st options) = Rejected e))"
proof (intro conjI impI)
  have d: "fst (deploy w st options) =
      then_promise (promise_all (race w) ps) (\<lambda>v. Resolved (JStr INFO_DEPLOY_COMPLETE))"
    unfolding ps by (rule deploy_found_path [OF loaded found go])
  {
    assume "ps = map Resolved vs"
    then show "fst (deploy w st options) = Resolved (JStr INFO_DEPLOY_COMPLETE)"
      unfolding d by (simp add: promise_all_Resolved then_promise_def)
  next
    assume "rejections ps \<noteq> []"
    then obtain e where "Rejected e \<in> set ps" "promise_all (race w) ps = Rejected e"
      using promise_all_Rejected by blast
    then show "\<exists>e. Rejected e \<in> set ps \<and> fst (deploy w st options) = Rejected e"
      unfolding d by (auto simp: then_promise_def)
  }
qed

text \<open>No function of the model reads the reply to \<^verbatim>\<open>createFunction\<close>.\<close>

lemma readObject_ignores_createFunction_reply:
  "readObject (w\<lparr>lambda_createFunction := r\<rparr>) file checkType = readObject w file checkType"
  by (simp add: readObject_def cong: option.case_cong)

lemma readArchive_ignores_createFunction_reply:
  "readArchive (w\<lparr>lambda_createFunction := r\<rparr>) st = readArchive w st"
  by (simp add: readArchive_def cong: jv.case_cong)

lemma updateCode_ignores_createFunction_reply:
  "updateCode (w\<lparr>lambda_createFunction := r\<rparr>) config = updateCode w config"
  by (simp add: updateCode_def)

lemma updateFunctionCode_ignores_createFunction_reply:
  "updateFunctionCode (w\<lparr>lambda_createFunction := r\<rparr>) st = updateFunctionCode w st"
  by (simp add: updateFunctionCode_def readArchive_ignores_createFunction_reply
      updateCode_ignores_createFunction_reply cong: promise.case_cong prod.case_cong if_cong)

lemma deploy_ignores_createFunction_reply:
  "deploy (w\<lparr>lambda_createFunction := r\<rparr>) st options = deploy w st options"
  by (simp add: deploy_def createLambdaService_def readConfig_def
      readObject_ignores_createFunction_reply checkLambda_def createFunction_def
      readArchive_ignores_createFunction_reply updateConfig_def
      updateFunctionCode_ignores_createFunction_reply
      cong: promise.case_cong prod.case_cong if_cong)

text \<open>
  Claim C8 says that a failing remote operation rejects the deploy and that a deploy whose
  remote operations succeed resolves with the deploy-complete message. On the create path
  the source does neither: in \<open>world_not_found\<close> the create call fails and the deploy
  resolves, and in \<open>world_create_succeeds\<close> it resolves with \<^verbatim>\<open>undefined\<close>, not with
  \<open>INFO_DEPLOY_COMPLETE\<close>.
\<close>

theorem create_failure_not_surfaced:
  "lambda_createFunction world_not_found example_create_request =
     Err [(''code'', JStr ''ServiceException'')] \<and>
   deploy world_not_found fresh (options_of (Some True) None) =
     (Resolved JUndefined,
      [GetFunction [(''FunctionName'', Val (JStr ''f''))],
       CreateFunction example_create_request]) \<and>
   deploy world_create_succeeds fresh (options_of (Some True) None) =
     (Resolved JUndefined,
      [GetFunction [(''FunctionName'', Val (JStr ''f''))],
       CreateFunction example_create_request])"
proof -
  have r: "lambda_createFunction world_not_found example_create_request =
     Err [(''code'', JStr ''ServiceException'')]"
    by (simp add: world_defs)
  have d: "deploy world_not_found fresh (options_of (Some True) None) =
     (Resolved JUndefined,
      [GetFunction [(''FunctionName'', Val (JStr ''f''))],
       CreateFunction example_create_request])"
    using deploy_create_path [OF loaded_not_found missing_not_found code_not_found create_set]
    by (simp add: createFunction_def archive_not_found example_create_request_def
        loaded_fields)
  have s: "deploy world_create_succeeds fresh (options_of (Some True) None) =
     (Resolved JUndefined,
      [GetFunction [(''FunctionName'', Val (JStr ''f''))],
       CreateFunction example_create_request])"
    unfolding world_create_succeeds_def deploy_ignores_createFunction_reply by (fact d)
  show ?thesis
    by (intro conjI) (fact r d s)+
qed

text \<open>
  The two phases of \<open>updateFunctionCode\<close>, once the archive is read and the dry run
  succeeds: with equal hashes the dry run is the only call and the result is the up-to-date
  message; with different hashes exactly one more call follows, with \<^verbatim>\<open>DryRun\<close> false and
  the response of the dry run under \<^verbatim>\<open>ZipFile\<close>.
\<close>

lemma updateFunctionCode_two_phase:
  assumes archive: "readArchive w st = Resolved archive"
      and dry: "lambda_updateFunctionCode w
                  [(''FunctionName'', Val (get (lambdaCfg st) ''FunctionName'')),
                   (''Publish'', Val (get (lambdaCfg st) ''Publish'')),
                   (''ZipFile'', Buffer archive),
                   (''DryRun'', Val (JBool True))] = Data result"
      and info: "truthy (lambdaGetInfo st)" "truthy (get (lambdaGetInfo st) ''Configuration'')"
  shows "updateFunctionCode w st =
           (if strict_eq (get (JObj result) ''CodeSha256'')
                 (get (get (lambdaGetInfo st) ''Configuration'') ''CodeSha256'')
            then (Resolved (JStr INFO_FUNCTION_CODE_UO_TO_DATE),
                  [UpdateFunctionCode
                     [(''FunctionName'', Val (get (lambdaCfg st) ''FunctionName'')),
                      (''Publish'', Val (get (lambdaCfg st) ''Publish'')),
                      (''ZipFile'', Buffer archive),
                      (''DryRun'', Val (JBool True))]])
            else (fst (updateCode w
                     [(''FunctionName'', Val (get (lambdaCfg st) ''FunctionName'')),
                      (''Publish'', Val (get (lambdaCfg st) ''Publish'')),
                      (''ZipFile'', Val (JObj result)),
                      (''DryRun'', Val (JBool False))]),
                  [UpdateFunctionCode
                     [(''FunctionName'', Val (get (lambdaCfg st) ''FunctionName'')),
                      (''Publish'', Val (get (lambdaCfg st) ''Publish'')),
                      (''ZipFile'', Buffer archive),
                      (''DryRun'', Val (JBool True))],
                   UpdateFunctionCode
                     [(''FunctionName'', Val (get (lambdaCfg st) ''FunctionName'')),
                      (''Publish'', Val (get (lambdaCfg st) ''Publish'')),
                      (''ZipFile'', Val (JObj result)),
                      (''DryRun'', Val (JBool False))]]))"
  using info
  by (simp add: updateFunctionCode_def archive updateCode_def dry del: get.simps)

lemma checkLambda_code_changed:
  "checkLambda world_code_changed loaded (options_of None (Some True)) =
     (Resolved (JObj [(''Configuration'',
               JObj [(''FunctionName'', JStr ''f''), (''CodeSha256'', JStr ''old'')])]),
      loaded_found, [GetFunction [(''FunctionName'', Val (JStr ''f''))]])"
  by (simp add: checkLambda_def world_code_changed_def loaded_found_def loaded_fields
      del: get.simps)

lemma loaded_found_fields:
  "lambdaCfg loaded_found = lambdaCfg loaded"
  "lambdaSecrets loaded_found = lambdaSecrets loaded"
  "lambdaGetInfo loaded_found =
     JObj [(''Configuration'',
            JObj [(''FunctionName'', JStr ''f''), (''CodeSha256'', JStr ''old'')])]"
  by (simp_all add: loaded_found_def)

lemma archive_code_changed: "readArchive world_code_changed loaded_found = Resolved ''PK''"
  by (simp add: readArchive_def isNEString_def world_defs world_code_changed_def
      loaded_found_def)

lemma updateFunctionCode_code_changed:
  "updateFunctionCode world_code_changed loaded_found =
     (Resolved (JObj [(''CodeSha256'', JStr ''new'')]),
      [UpdateFunctionCode
         [(''FunctionName'', Val (JStr ''f'')), (''Publish'', Val (JBool False)),
          (''ZipFile'', Buffer ''PK''), (''DryRun'', Val (JBool True))],
       UpdateFunctionCode
         [(''FunctionName'', Val (JStr ''f'')), (''Publish'', Val (JBool False)),
          (''ZipFile'', Val (JObj [(''CodeSha256'', JStr ''new'')])),
          (''DryRun'', Val (JBool False))]])"
proof -
  have u: "lambda_updateFunctionCode world_code_changed request =
      Data [(''CodeSha256'', JStr ''new'')]" for request
    by (simp add: world_code_changed_def world_defs)
  show ?thesis
    by (simp add: updateFunctionCode_def archive_code_changed updateCode_def u
        loaded_found_fields loaded_fields)
qed

lemma updateConfig_code_changed:
  "snd (updateConfig world_code_changed loaded_found) =
     [UpdateFunctionConfiguration
        [(''FunctionName'', Val (JStr ''f'')), (''Description'', Val (JStr ''demo'')),
         (''Handler'', Val (JStr ''index.handler'')), (''Runtime'', Val (JStr ''nodejs6.10'')),
         (''MemorySize'', Val (JNum 128)), (''Timeout'', Val (JNum 3)),
         (''Role'', Val (JStr ''role'')),
         (''Environment'', Val (JObj [(''Variables'', JObj [])]))]]"
  by (simp add: updateConfig_def loaded_found_fields loaded_fields Let_def)

text \<open>
  Claim C2 says that the real code update uploads the archive bytes of the dry run. In
  \<open>world_code_changed\<close> the dry run carries the bytes \<^verbatim>\<open>PK\<close> of the archive, and the
  real update that follows carries the response object of the dry run under \<^verbatim>\<open>ZipFile\<close>.
\<close>

theorem real_update_sends_dry_run_response:
  "filter is_updateFunctionCode
     (snd (deploy world_code_changed fresh (options_of None (Some True)))) =
     [UpdateFunctionCode
        [(''FunctionName'', Val (JStr ''f'')), (''Publish'', Val (JBool False)),
         (''ZipFile'', Buffer ''PK''), (''DryRun'', Val (JBool True))],
      UpdateFunctionCode
        [(''FunctionName'', Val (JStr ''f'')), (''Publish'', Val (JBool False)),
         (''ZipFile'', Val (JObj [(''CodeSha256'', JStr ''new'')])),
         (''DryRun'', Val (JBool False))]]"
proof -
  have o: "options_updateConfig (options_of None (Some True))"
    by (simp add: options_updateConfig_def options_of_def)
  have d: "snd (deploy world_code_changed fresh (options_of None (Some True))) =
      GetFunction [(''FunctionName'', Val (JStr ''f''))] #
      snd (updateConfig world_code_changed loaded_found) @
      snd (updateFunctionCode world_code_changed loaded_found)"
    by (simp add: deploy_def loaded_code_changed checkLambda_code_changed o
        split: prod.splits)
  show ?thesis
    unfolding d updateConfig_code_changed updateFunctionCode_code_changed by simp
qed

section \<open>The local test runner\<close>

lemma length_split_on: "length (split_on c s) = Suc (length (filter (\<lambda>x. x = c) s))"
  by (induction s) (auto split: list.splits)

text \<open>
  Claim C7. When the configuration and the test file load and the handler string does not
  split at dots into exactly two tokens, \<open>test\<close> rejects with \<^verbatim>\<open>Invalid handler\<close> and
  records no event: no module is loaded and no handler is invoked.
\<close>

theorem test_invalid_handler:
  assumes config: "then_promise (readObject w FILE_LAMBDA_CONFIG (Some FILE_LAMBDA_CONFIG))
                     accept_config = Resolved cfg"
      and tests: "then_promise (readObject w (testFile_of testFileName) (Some FILE_LAMBDA_TESTS))
                     accept_tests = Resolved tests"
      and handler: "get cfg ''Handler'' = JStr h"
      and tokens: "length (split_on CHR ''.'' h) \<noteq> 2"
  shows "test w st testFileName = (Rejected (JStr ''Invalid handler''), [])"
  using tokens
  by (simp add: test_def config tests promise_all_def resolved_or_def runTests_def handler
      Let_def del: get.simps split_on.simps)

theorem test_invalid_handler_witness:
  "then_promise (readObject world_handler_without_dot FILE_LAMBDA_CONFIG
       (Some FILE_LAMBDA_CONFIG)) accept_config =
     Resolved (example_config ''code.zip'' ''indexonlyexport'') \<and>
   then_promise (readObject world_handler_without_dot (testFile_of None)
       (Some FILE_LAMBDA_TESTS)) accept_tests = Resolved example_tests \<and>
   get (example_config ''code.zip'' ''indexonlyexport'') ''Handler'' = JStr ''indexonlyexport'' \<and>
   length (split_on CHR ''.'' ''indexonlyexport'') = 1 \<and>
   test world_handler_without_dot fresh None = (Rejected (JStr ''Invalid handler''), [])"
proof -
  have c: "then_promise (readObject world_handler_without_dot FILE_LAMBDA_CONFIG
       (Some FILE_LAMBDA_CONFIG)) accept_config =
     Resolved (example_config ''code.zip'' ''indexonlyexport'')"
    by (simp add: world_handler_without_dot_def world_defs read_defs)
  have t: "then_promise (readObject world_handler_without_dot (testFile_of None)
       (Some FILE_LAMBDA_TESTS)) accept_tests = Resolved example_tests"
    by (simp add: world_handler_without_dot_def world_defs read_defs testFile_of_def
        example_tests_def)
  have h: "get (example_config ''code.zip'' ''indexonlyexport'') ''Handler'' =
      JStr ''indexonlyexport''"
    by (simp add: example_config_def)
  have l: "length (split_on CHR ''.'' ''indexonlyexport'') = 1"
    by (simp add: length_split_on)
  have n: "length (split_on CHR ''.'' ''indexonlyexport'') \<noteq> 2"
    unfolding l by simp
  note r = test_invalid_handler [OF c t h n, where st = fresh]
  show ?thesis
    by (intro conjI) (fact c t h l r)+
qed

end
